theory Spec2Isabelle
  imports Main
begin

section \<open>Python values and strings used by haproxycfg.py\<close>

text \<open>
  Attribute values read with \<^verbatim>\<open>get_service_attribute\<close> are only ever tested for
  truthiness in haproxycfg.py. \<open>PyNone\<close>, the empty string and the empty list are falsy.
\<close>

datatype pyval = PyNone | PyStr string | PyList "string list"

fun truthy :: "pyval \<Rightarrow> bool" where
  "truthy PyNone = False"
| "truthy (PyStr s) = (s \<noteq> [])"
| "truthy (PyList xs) = (xs \<noteq> [])"

text \<open>A module constant read from the environment: \<open>None\<close> or a string. Both \<open>None\<close>
  and the empty string are falsy in \<^verbatim>\<open>if CONSTANT:\<close>.\<close>

fun truthy_opt :: "string option \<Rightarrow> bool" where
  "truthy_opt None = False"
| "truthy_opt (Some s) = (s \<noteq> [])"

definition backslash :: char where
  "backslash = CHR 0x5C"

definition is_space :: "char \<Rightarrow> bool" where
  "is_space c = (c = CHR '' '' \<or> c = CHR 0x09 \<or> c = CHR 0x0A \<or> c = CHR 0x0B
                 \<or> c = CHR 0x0C \<or> c = CHR 0x0D)"

text \<open>\<^verbatim>\<open>str.strip()\<close>: drop leading and trailing whitespace.\<close>

definition strip :: "string \<Rightarrow> string" where
  "strip s = rev (dropWhile is_space (rev (dropWhile is_space s)))"

text \<open>
  \<^verbatim>\<open>re.split(r'(?<!\\),', s)\<close>: split at every comma whose preceding character is not a
  backslash. \<open>esc\<close> says that the character just read was a backslash; \<open>acc\<close> is the piece
  read so far.
\<close>

fun re_split_go :: "bool \<Rightarrow> string \<Rightarrow> string \<Rightarrow> string list" where
  "re_split_go esc acc [] = [acc]"
| "re_split_go esc acc (c # cs) =
     (if c = CHR '','' \<and> \<not> esc then acc # re_split_go False [] cs
      else re_split_go (c = backslash) (acc @ [c]) cs)"

definition re_split_unescaped_comma :: "string \<Rightarrow> string list" where
  "re_split_unescaped_comma s = re_split_go False [] s"

text \<open>\<^verbatim>\<open>s.split(":", 1)\<close>: at most one split, at the first colon.\<close>

definition split_colon_1 :: "string \<Rightarrow> string list" where
  "split_colon_1 s =
     (if CHR '':'' \<in> set s
      then [takeWhile (\<lambda>c. c \<noteq> CHR '':'') s, tl (dropWhile (\<lambda>c. c \<noteq> CHR '':'') s)]
      else [s])"

text \<open>\<^verbatim>\<open>s.replace("\,", ",")\<close>: every backslash-comma pair, left to right, becomes a comma.\<close>

fun replace_escaped_comma :: "string \<Rightarrow> string" where
  "replace_escaped_comma (a # b # cs) =
     (if a = backslash \<and> b = CHR '','' then CHR '','' # replace_escaped_comma cs
      else a # replace_escaped_comma (b # cs))"
| "replace_escaped_comma cs = cs"

section \<open>OrderedDict: section name to statements, in insertion order\<close>

type_synonym statements = "string list"
type_synonym odict = "(string \<times> statements) list"

text \<open>\<^verbatim>\<open>cfg[k] = v\<close>: an existing key keeps its position and gets the new value, a new key
  goes to the end.\<close>

fun od_set :: "string \<Rightarrow> statements \<Rightarrow> odict \<Rightarrow> odict" where
  "od_set k v [] = [(k, v)]"
| "od_set k v ((k', v') # d) = (if k = k' then (k, v) # d else (k', v') # od_set k v d)"

text \<open>\<^verbatim>\<open>cfg.update(other)\<close>: set every item of \<open>other\<close>, in its order.\<close>

definition od_update :: "odict \<Rightarrow> odict \<Rightarrow> odict" where
  "od_update d e = fold (\<lambda>(k, v). od_set k v) e d"

definition od_keys :: "odict \<Rightarrow> string list" where
  "od_keys d = map fst d"

section \<open>The userlist section\<close>

text \<open>The body of the loop over \<open>auth_list\<close>: the statements one entry appends to
  \<open>userlist\<close> (none or one).\<close>

definition userlist_entry :: "string \<Rightarrow> string list" where
  "userlist_entry auth =
     (if strip auth \<noteq> [] then
        (case split_colon_1 (strip auth) of
           [username, password] \<Rightarrow>
             [''user '' @ replace_escaped_comma username @ '' insecure-password ''
                @ replace_escaped_comma password]
         | _ \<Rightarrow> [])
      else [])"

definition config_userlist_section :: "string option \<Rightarrow> odict" where
  "config_userlist_section basic_auth =
     (case basic_auth of
        None \<Rightarrow> []
      | Some s \<Rightarrow>
          if s \<noteq> [] then
            (let auth_list = re_split_unescaped_comma s;
                 userlist = concat (map userlist_entry auth_list)
             in if userlist \<noteq> [] then od_set ''userlist haproxy_userlist'' userlist [] else [])
          else [])"

section \<open>Module constants, helper modules, topology and state\<close>

text \<open>
  The constants of \<^verbatim>\<open>haproxy.config\<close> that haproxycfg.py reads. They are fixed for the
  lifetime of the process. Constants that are only formatted with \<^verbatim>\<open>%s\<close> are kept as
  the text they format to; constants that are only handed to a helper are kept as \<open>pyval\<close>.
\<close>

record config =
  HAPROXY_CONTAINER_URI :: "string option"
  HAPROXY_SERVICE_URI :: "string option"
  API_AUTH :: "string option"
  HAPROXY_CONFIG_FILE :: string
  CERT_DIR :: string
  CACERT_DIR :: string
  HTTP_BASIC_AUTH :: "string option"
  DEFAULT_SSL_CERT :: "string option"
  EXTRA_SSL_CERT :: pyval
  DEFAULT_CA_CERT :: "string option"
  RSYSLOG_DESTINATION :: string
  MAXCONN :: string
  SSL_BIND_OPTIONS :: pyval
  SSL_BIND_CIPHERS :: pyval
  EXTRA_GLOBAL_SETTINGS :: pyval
  STATS_PORT :: string
  STATS_AUTH :: string
  EXTRA_BIND_SETTINGS :: "string \<rightharpoonup> string"
  BALANCE :: string
  MODE :: string
  OPTION :: pyval
  TIMEOUT :: pyval
  EXTRA_DEFAULT_SETTINGS :: pyval

text \<open>
  The functions haproxycfg.py imports from \<^verbatim>\<open>helper.*\<close> and \<^verbatim>\<open>utils\<close>. Their code is
  outside haproxycfg.py, so they are parameters of the model: \<open>'d\<close> is the type of the
  service details, \<open>'rs\<close> of the route collection, \<open>'r\<close> of one route, \<open>'vh\<close> of one
  virtual host. \<open>set_iter\<close> is the order in which Python iterates \<^verbatim>\<open>set(tcp_ports)\<close>.
  \<open>parse_port_string\<close> returns the port number as the text \<^verbatim>\<open>%s\<close> formats it to.
\<close>

record ('d, 'rs, 'r, 'vh) helpers =
  prettify :: "odict \<Rightarrow> string"
  get_service_attribute :: "'d \<Rightarrow> string \<Rightarrow> string option \<Rightarrow> pyval"
  get_bind_string :: "bool \<Rightarrow> string \<Rightarrow> string option \<Rightarrow> (string \<rightharpoonup> string) \<Rightarrow> string"
  get_extra_ssl_certs :: "pyval \<Rightarrow> string list"
  config_ssl_bind_options :: "pyval \<Rightarrow> string list"
  config_ssl_bind_ciphers :: "pyval \<Rightarrow> string list"
  config_extra_settings :: "pyval \<Rightarrow> string list"
  config_option :: "pyval \<Rightarrow> string list"
  config_timeout :: "pyval \<Rightarrow> string list"
  get_tcp_port_list :: "'d \<Rightarrow> string list \<Rightarrow> string list"
  parse_port_string :: "string \<Rightarrow> string option \<Rightarrow> bool \<times> string"
  get_tcp_routes :: "'d \<Rightarrow> 'rs \<Rightarrow> string \<Rightarrow> string \<Rightarrow> string list \<times> 'r list"
  get_service_aliases_given_tcp_port :: "'d \<Rightarrow> string list \<Rightarrow> string \<Rightarrow> string list"
  get_tcp_balance :: "'d \<Rightarrow> string list"
  get_tcp_options :: "'d \<Rightarrow> string list \<Rightarrow> string list"
  get_tcp_extra_settings :: "'d \<Rightarrow> string list \<Rightarrow> string list"
  config_frontend_with_virtual_host :: "'vh list \<Rightarrow> string option \<Rightarrow> odict \<times> bool"
  check_require_default_route :: "'rs \<Rightarrow> 'r list \<Rightarrow> bool"
  config_default_frontend :: "string option \<Rightarrow> odict \<times> bool"
  config_monitor_frontend :: "bool \<Rightarrow> odict"
  get_backend_section :: "'d \<Rightarrow> 'rs \<Rightarrow> 'vh list \<Rightarrow> string option \<Rightarrow> 'r list \<Rightarrow> string list"
  run_reload :: "nat option \<Rightarrow> nat option"
  set_iter :: "string list \<Rightarrow> string list"

text \<open>\<^verbatim>\<open>self.specs\<close>: the topology of one cycle, built by \<^verbatim>\<open>_initialize\<close> and read-only
  afterwards. Each field is the value the method of the same name returns.\<close>

record ('d, 'rs, 'vh) specs =
  get_details :: 'd
  get_routes :: 'rs
  get_vhosts :: "'vh list"
  get_service_aliases :: "string list"
  get_default_ssl_cert :: "string list"
  get_ssl_cert :: "string list"

text \<open>What a cycle does to the outside: log lines, the write of the configuration file
  (with the result \<^verbatim>\<open>save_to_file\<close> returned), the write of a certificate directory,
  \<^verbatim>\<open>UpdateHelper.run_reload\<close> and \<^verbatim>\<open>UpdateHelper.run_once\<close>.\<close>

datatype event =
    Log string
  | SaveToFile string string bool
  | SaveCerts string "string list"
  | RunReload
  | RunOnce

fun is_config_write :: "event \<Rightarrow> bool" where
  "is_config_write (SaveToFile f t ok) = True"
| "is_config_write e = False"

fun is_cert_write :: "event \<Rightarrow> bool" where
  "is_cert_write (SaveCerts d cs) = True"
| "is_cert_write e = False"

text \<open>
  The attributes of class \<^verbatim>\<open>Haproxy\<close> that persist across cycles (\<open>cls_cfg\<close>,
  \<open>cls_process\<close>, \<open>cls_certs\<close>), the attributes of one instance (\<open>ssl_bind_string\<close>,
  \<open>ssl_updated\<close>, \<open>routes_added\<close>, \<open>require_default_route\<close>), and the trace of effects so
  far.
\<close>

record 'r world =
  cls_cfg :: "string option"
  cls_process :: "nat option"
  cls_certs :: "string list"
  ssl_bind_string :: "string option"
  ssl_updated :: bool
  routes_added :: "'r list"
  require_default_route :: bool
  trace :: "event list"

definition initial_world :: "'r world" where
  "initial_world = \<lparr> cls_cfg = None, cls_process = None, cls_certs = [],
     ssl_bind_string = None, ssl_updated = False, routes_added = [],
     require_default_route = False, trace = [] \<rparr>"

definition emit :: "event \<Rightarrow> 'r world \<Rightarrow> 'r world" where
  "emit e w = w\<lparr>trace := trace w @ [e]\<rparr>"

text \<open>\<^verbatim>\<open>Haproxy.__init__\<close>: the instance attributes of a fresh object. \<^verbatim>\<open>_initialize\<close>
  (discovery) is represented by its result, the \<open>specs\<close> handed to the cycle.\<close>

definition new_instance :: "'r world \<Rightarrow> 'r world" where
  "new_instance w = w\<lparr>ssl_bind_string := None, ssl_updated := False, routes_added := [],
     require_default_route := False\<rparr>"

definition api_mode :: "config \<Rightarrow> bool" where
  "api_mode C = (truthy_opt (HAPROXY_SERVICE_URI C) \<and> truthy_opt (HAPROXY_CONTAINER_URI C)
                 \<and> truthy_opt (API_AUTH C))"

section \<open>Certificates\<close>

text \<open>\<^verbatim>\<open>if CERT: certs.append(CERT)\<close>\<close>

fun cert_if_set :: "string option \<Rightarrow> string list" where
  "cert_if_set None = []"
| "cert_if_set (Some c) = (if c \<noteq> [] then [c] else [])"

definition leaf_certs ::
  "('d, 'rs, 'r, 'vh) helpers \<Rightarrow> config \<Rightarrow> ('d, 'rs, 'vh) specs \<Rightarrow> string list" where
  "leaf_certs H C sp = cert_if_set (DEFAULT_SSL_CERT C) @ get_extra_ssl_certs H (EXTRA_SSL_CERT C)
     @ get_default_ssl_cert sp @ get_ssl_cert sp"

definition config_ssl_certs ::
  "('d, 'rs, 'r, 'vh) helpers \<Rightarrow> config \<Rightarrow> ('d, 'rs, 'vh) specs \<Rightarrow> 'r world \<Rightarrow> string \<times> 'r world" where
  "config_ssl_certs H C sp w =
     (let certs = leaf_certs H C sp in
      if certs \<noteq> [] then
        (if set certs \<noteq> set (cls_certs w)
         then (''ssl crt /certs/'',
               emit (Log ''SSL certificates are updated'')
                 (emit (SaveCerts (CERT_DIR C) certs)
                    (w\<lparr>cls_certs := certs, ssl_updated := True\<rparr>)))
         else (''ssl crt /certs/'', w))
      else ([], w))"

definition config_ssl_cacerts :: "config \<Rightarrow> 'r world \<Rightarrow> string \<times> 'r world" where
  "config_ssl_cacerts C w =
     (let cacerts = cert_if_set (DEFAULT_CA_CERT C) in
      if cacerts \<noteq> [] then
        (if set cacerts \<noteq> set (cls_certs w)
         then ('' ca-file /cacerts/cert0.pem verify required'',
               emit (Log ''SSL CA certificates are updated'')
                 (emit (SaveCerts (CACERT_DIR C) cacerts)
                    (w\<lparr>cls_certs := cacerts, ssl_updated := True\<rparr>)))
         else ('' ca-file /cacerts/cert0.pem verify required'', w))
      else ([], w))"

definition config_ssl ::
  "('d, 'rs, 'r, 'vh) helpers \<Rightarrow> config \<Rightarrow> ('d, 'rs, 'vh) specs \<Rightarrow> 'r world \<Rightarrow> 'r world" where
  "config_ssl H C sp w =
     (let (s1, w1) = config_ssl_certs H C sp w;
          (s2, w2) = config_ssl_cacerts C w1;
          ssl_bind = s1 @ s2
      in if ssl_bind \<noteq> [] then w2\<lparr>ssl_bind_string := Some ssl_bind\<rparr> else w2)"

section \<open>The fixed sections\<close>

definition config_global_section :: "('d, 'rs, 'r, 'vh) helpers \<Rightarrow> config \<Rightarrow> odict" where
  "config_global_section H C =
     od_set ''global''
       ([''log '' @ RSYSLOG_DESTINATION C @ '' local0'',
         ''log '' @ RSYSLOG_DESTINATION C @ '' local1 notice'',
         ''log-send-hostname'',
         ''maxconn '' @ MAXCONN C,
         ''pidfile /var/run/haproxy.pid'',
         ''user haproxy'',
         ''group haproxy'',
         ''daemon'',
         ''stats socket /var/run/haproxy.stats level admin'']
        @ config_ssl_bind_options H (SSL_BIND_OPTIONS C)
        @ config_ssl_bind_ciphers H (SSL_BIND_CIPHERS C)
        @ config_extra_settings H (EXTRA_GLOBAL_SETTINGS C)) []"

text \<open>\<^verbatim>\<open>EXTRA_BIND_SETTINGS.get(STATS_PORT, "")\<close>\<close>

definition dict_get_default :: "(string \<rightharpoonup> string) \<Rightarrow> string \<Rightarrow> string \<Rightarrow> string" where
  "dict_get_default m k dflt = (case m k of None \<Rightarrow> dflt | Some v \<Rightarrow> v)"

definition config_stats_section :: "config \<Rightarrow> odict" where
  "config_stats_section C =
     (let bind = STATS_PORT C @ '' '' @ dict_get_default (EXTRA_BIND_SETTINGS C) (STATS_PORT C) []
      in od_set ''listen stats''
           [''bind :'' @ strip bind,
            ''mode http'',
            ''stats enable'',
            ''timeout connect 10s'',
            ''timeout client 1m'',
            ''timeout server 1m'',
            ''stats hide-version'',
            ''stats realm Haproxy'' @ [backslash] @ '' Statistics'',
            ''stats uri /'',
            ''stats auth '' @ STATS_AUTH C] [])"

definition config_defaults_section :: "('d, 'rs, 'r, 'vh) helpers \<Rightarrow> config \<Rightarrow> odict" where
  "config_defaults_section H C =
     od_set ''defaults''
       ([''balance '' @ BALANCE C, ''log global'', ''mode '' @ MODE C]
        @ config_option H (OPTION C)
        @ config_timeout H (TIMEOUT C)
        @ config_extra_settings H (EXTRA_DEFAULT_SETTINGS C)) []"

section \<open>TCP sections\<close>

text \<open>\<^verbatim>\<open>get_tcp_section\<close>: the statements of one listener and its port number. The
  assignment to \<^verbatim>\<open>self.routes_added\<close> replaces the attribute by what
  \<^verbatim>\<open>get_tcp_routes\<close> returned for this port.\<close>

definition get_tcp_section ::
  "('d, 'rs, 'r, 'vh) helpers \<Rightarrow> config \<Rightarrow> ('d, 'rs, 'vh) specs \<Rightarrow> string \<Rightarrow> 'r world
     \<Rightarrow> (statements \<times> string) \<times> 'r world" where
  "get_tcp_section H C sp tcp_port w =
     (let details = get_details sp;
          services_aliases = get_service_aliases sp;
          (enable_ssl, port_num) = parse_port_string H tcp_port (ssl_bind_string w);
          bind_string = get_bind_string H enable_ssl port_num (ssl_bind_string w)
                          (EXTRA_BIND_SETTINGS C);
          (tcp_routes, added) = get_tcp_routes H details (get_routes sp) tcp_port port_num;
          w' = w\<lparr>routes_added := added\<rparr>;
          services = get_service_aliases_given_tcp_port H details services_aliases tcp_port;
          balance = get_tcp_balance H details;
          options = get_tcp_options H details services;
          extra_settings = get_tcp_extra_settings H details services
      in (([''bind :'' @ strip bind_string, ''mode tcp'']
             @ balance @ options @ extra_settings @ tcp_routes, port_num), w'))"

text \<open>The loop \<^verbatim>\<open>for tcp_port in set(tcp_ports)\<close>, over the ports in iteration order.\<close>

fun tcp_loop ::
  "('d, 'rs, 'r, 'vh) helpers \<Rightarrow> config \<Rightarrow> ('d, 'rs, 'vh) specs \<Rightarrow> string list
     \<Rightarrow> odict \<times> 'r world \<Rightarrow> odict \<times> 'r world" where
  "tcp_loop H C sp [] (cfg, w) = (cfg, w)"
| "tcp_loop H C sp (tcp_port # ports) (cfg, w) =
     (let ((tcp_section, port_num), w') = get_tcp_section H C sp tcp_port w
      in tcp_loop H C sp ports (od_set (''listen port_'' @ port_num) tcp_section cfg, w'))"

definition config_tcp_sections ::
  "('d, 'rs, 'r, 'vh) helpers \<Rightarrow> config \<Rightarrow> ('d, 'rs, 'vh) specs \<Rightarrow> 'r world \<Rightarrow> odict \<times> 'r world" where
  "config_tcp_sections H C sp w =
     (let details = get_details sp;
          services_aliases = get_service_aliases sp
      in if \<not> truthy (get_service_attribute H details ''tcp_ports'' None) then ([], w)
         else (let tcp_ports = get_tcp_port_list H details services_aliases
               in tcp_loop H C sp (set_iter H tcp_ports) ([], w)))"

section \<open>Frontend and backend sections\<close>

definition config_frontend_sections ::
  "('d, 'rs, 'r, 'vh) helpers \<Rightarrow> ('d, 'rs, 'vh) specs \<Rightarrow> 'r world \<Rightarrow> odict \<times> 'r world" where
  "config_frontend_sections H sp w =
     (let vhosts = get_vhosts sp;
          ssl_bind = ssl_bind_string w
      in if vhosts \<noteq> [] then
           (let (cfg, monitor_uri_configured) = config_frontend_with_virtual_host H vhosts ssl_bind
            in (od_update cfg (config_monitor_frontend H monitor_uri_configured), w))
         else
           (let w' = w\<lparr>require_default_route :=
                         check_require_default_route H (get_routes sp) (routes_added w)\<rparr>
            in if require_default_route w' then
                 (let (cfg, monitor_uri_configured) = config_default_frontend H ssl_bind
                  in (od_update cfg (config_monitor_frontend H monitor_uri_configured), w'))
               else (od_update [] (config_monitor_frontend H False), w')))"

text \<open>\<^verbatim>\<open>not service_alias\<close>: the pseudo-alias \<open>None\<close> and the empty string are falsy.\<close>

definition real_alias :: "string option \<Rightarrow> bool" where
  "real_alias a = truthy_opt a"

text \<open>\<^verbatim>\<open>"backend SERVICE_%s" % service_alias\<close>\<close>

fun service_key :: "string option \<Rightarrow> string" where
  "service_key None = ''backend SERVICE_None''"
| "service_key (Some a) = ''backend SERVICE_'' @ a"

text \<open>The body of the loop over \<open>services_aliases\<close> in \<^verbatim>\<open>_config_backend_sections\<close>.\<close>

definition backend_step ::
  "('d, 'rs, 'r, 'vh) helpers \<Rightarrow> ('d, 'rs, 'vh) specs \<Rightarrow> 'r world \<Rightarrow> string option \<Rightarrow> odict \<Rightarrow> odict" where
  "backend_step H sp w service_alias cfg =
     (let backend = get_backend_section H (get_details sp) (get_routes sp) (get_vhosts sp)
                      service_alias (routes_added w)
      in if \<not> real_alias service_alias then
           (if require_default_route w then od_set ''backend default_service'' backend cfg
            else cfg)
         else if truthy (get_service_attribute H (get_details sp) ''virtual_host'' service_alias)
           then od_set (service_key service_alias) backend cfg
         else od_set ''backend default_service'' backend cfg)"

definition backend_aliases :: "('d, 'rs, 'vh) specs \<Rightarrow> string option list" where
  "backend_aliases sp =
     (if get_vhosts sp = [] then [None] else map Some (get_service_aliases sp))"

definition config_backend_sections ::
  "('d, 'rs, 'r, 'vh) helpers \<Rightarrow> ('d, 'rs, 'vh) specs \<Rightarrow> 'r world \<Rightarrow> odict" where
  "config_backend_sections H sp w = fold (backend_step H sp w) (backend_aliases sp) []"

section \<open>One synthesis cycle\<close>

text \<open>The change detector \<^verbatim>\<open>_update_haproxy\<close>. \<open>write_ok\<close> is what \<^verbatim>\<open>save_to_file\<close>
  returns in this cycle.\<close>

definition newline :: char where
  "newline = CHR 0x0A"

definition update_haproxy ::
  "('d, 'rs, 'r, 'vh) helpers \<Rightarrow> config \<Rightarrow> string \<Rightarrow> bool \<Rightarrow> 'r world \<Rightarrow> 'r world" where
  "update_haproxy H C cfg write_ok w =
     (if api_mode C then
        emit (Log ''===========END==========='')
          (if cls_cfg w \<noteq> Some cfg then
             (let w1 = emit (Log (''HAProxy configuration:'' @ [newline] @ cfg)) w;
                  w2 = w1\<lparr>cls_cfg := Some cfg\<rparr>;
                  w3 = emit (SaveToFile (HAPROXY_CONFIG_FILE C) cfg write_ok) w2
              in if write_ok
                 then emit RunReload (w3\<lparr>cls_process := run_reload H (cls_process w3)\<rparr>)
                 else w3)
           else if ssl_updated w then
             (let w1 = emit (Log ''SSL certificates have been changed'') w
              in emit RunReload (w1\<lparr>cls_process := run_reload H (cls_process w1)\<rparr>))
           else emit (Log ''HAProxy configuration remains unchanged'') w)
      else
        emit RunOnce
          (emit (SaveToFile (HAPROXY_CONFIG_FILE C) cfg write_ok)
             (emit (Log (''HAProxy configuration:'' @ [newline] @ cfg)) w)))"

text \<open>The parts of \<^verbatim>\<open>update\<close>, in the order the method runs them; each is given the
  world the part before it left.\<close>

definition tcp_part ::
  "('d, 'rs, 'r, 'vh) helpers \<Rightarrow> config \<Rightarrow> ('d, 'rs, 'vh) specs \<Rightarrow> 'r world \<Rightarrow> odict \<times> 'r world" where
  "tcp_part H C sp w = config_tcp_sections H C sp (config_ssl H C sp w)"

definition frontend_part ::
  "('d, 'rs, 'r, 'vh) helpers \<Rightarrow> config \<Rightarrow> ('d, 'rs, 'vh) specs \<Rightarrow> 'r world \<Rightarrow> odict \<times> 'r world" where
  "frontend_part H C sp w = config_frontend_sections H sp (snd (tcp_part H C sp w))"

definition backend_part ::
  "('d, 'rs, 'r, 'vh) helpers \<Rightarrow> config \<Rightarrow> ('d, 'rs, 'vh) specs \<Rightarrow> 'r world \<Rightarrow> odict" where
  "backend_part H C sp w = config_backend_sections H sp (snd (frontend_part H C sp w))"

text \<open>\<open>cfg_dict\<close> as \<^verbatim>\<open>update\<close> assembles it.\<close>

definition cfg_dict ::
  "('d, 'rs, 'r, 'vh) helpers \<Rightarrow> config \<Rightarrow> ('d, 'rs, 'vh) specs \<Rightarrow> 'r world \<Rightarrow> odict" where
  "cfg_dict H C sp w =
     od_update (od_update (od_update (od_update (od_update (od_update (od_update []
       (config_global_section H C))
       (config_defaults_section H C))
       (config_stats_section C))
       (config_userlist_section (HTTP_BASIC_AUTH C)))
       (fst (tcp_part H C sp w)))
       (fst (frontend_part H C sp w)))
       (backend_part H C sp w)"

definition update ::
  "('d, 'rs, 'r, 'vh) helpers \<Rightarrow> config \<Rightarrow> ('d, 'rs, 'vh) specs \<Rightarrow> bool \<Rightarrow> 'r world \<Rightarrow> 'r world" where
  "update H C sp write_ok w =
     update_haproxy H C (prettify H (cfg_dict H C sp w)) write_ok (snd (frontend_part H C sp w))"

text \<open>\<^verbatim>\<open>run_haproxy\<close>: a fresh instance, then \<^verbatim>\<open>update\<close>.\<close>

definition run_haproxy ::
  "('d, 'rs, 'r, 'vh) helpers \<Rightarrow> config \<Rightarrow> ('d, 'rs, 'vh) specs \<Rightarrow> bool \<Rightarrow> 'r world \<Rightarrow> 'r world" where
  "run_haproxy H C sp write_ok w = update H C sp write_ok (new_instance w)"

text \<open>A run of the process: the cycles in order, each with its topology and the result
  of its file write.\<close>

definition run_cycles ::
  "('d, 'rs, 'r, 'vh) helpers \<Rightarrow> config \<Rightarrow> (('d, 'rs, 'vh) specs \<times> bool) list \<Rightarrow> 'r world \<Rightarrow> 'r world" where
  "run_cycles H C ins w = fold (\<lambda>(sp, write_ok). run_haproxy H C sp write_ok) ins w"

text \<open>The first occurrence of every element, in order.\<close>

definition dedup_first :: "'a list \<Rightarrow> 'a list" where
  "dedup_first xs = rev (remdups (rev xs))"

section \<open>Auxiliary definitions for the proofs\<close>

text \<open>The bind-string suffix \<^verbatim>\<open>_config_ssl\<close> computes; it depends on which certificates are
  configured, not on the state.\<close>

definition ssl_bind_of :: "('d, 'rs, 'r, 'vh) helpers \<Rightarrow> config \<Rightarrow> ('d, 'rs, 'vh) specs \<Rightarrow> string" where
  "ssl_bind_of H C sp =
     (if leaf_certs H C sp \<noteq> [] then ''ssl crt /certs/'' else [])
     @ (if cert_if_set (DEFAULT_CA_CERT C) \<noteq> [] then '' ca-file /cacerts/cert0.pem verify required'' else [])"

text \<open>What \<^verbatim>\<open>get_tcp_routes\<close> reports as added for one port.\<close>

definition port_routes_added ::
  "('d, 'rs, 'r, 'vh) helpers \<Rightarrow> ('d, 'rs, 'vh) specs \<Rightarrow> string option \<Rightarrow> string \<Rightarrow> 'r list" where
  "port_routes_added H sp bind tcp_port =
     snd (get_tcp_routes H (get_details sp) (get_routes sp) tcp_port
            (snd (parse_port_string H tcp_port bind)))"

text \<open>Two worlds agree on the instance attributes the section builders read.\<close>

definition inst_eq :: "'r world \<Rightarrow> 'r world \<Rightarrow> bool" where
  "inst_eq w w' = (ssl_bind_string w = ssl_bind_string w' \<and> routes_added w = routes_added w'
     \<and> require_default_route w = require_default_route w')"

text \<open>The text one cycle serialises, started in world \<open>w\<close>.\<close>

definition cycle_text ::
  "('d, 'rs, 'r, 'vh) helpers \<Rightarrow> config \<Rightarrow> ('d, 'rs, 'vh) specs \<Rightarrow> 'r world \<Rightarrow> string" where
  "cycle_text H C sp w = prettify H (cfg_dict H C sp (new_instance w))"

fun is_reload :: "event \<Rightarrow> bool" where
  "is_reload RunReload = True"
| "is_reload e = False"

text \<open>The TCP ports in the order the loop visits them, and the name of the section a port
  is written to.\<close>

definition tcp_port_order :: "('d, 'rs, 'r, 'vh) helpers \<Rightarrow> ('d, 'rs, 'vh) specs \<Rightarrow> string list" where
  "tcp_port_order H sp =
     (if truthy (get_service_attribute H (get_details sp) ''tcp_ports'' None)
      then set_iter H (get_tcp_port_list H (get_details sp) (get_service_aliases sp))
      else [])"

definition tcp_section_name :: "('d, 'rs, 'r, 'vh) helpers \<Rightarrow> string option \<Rightarrow> string \<Rightarrow> string" where
  "tcp_section_name H bind tcp_port = ''listen port_'' @ snd (parse_port_string H tcp_port bind)"

text \<open>A real alias without the \<^verbatim>\<open>virtual_host\<close> attribute: its backend goes to
  \<^verbatim>\<open>backend default_service\<close>.\<close>

definition collapses :: "('d, 'rs, 'r, 'vh) helpers \<Rightarrow> ('d, 'rs, 'vh) specs \<Rightarrow> string \<Rightarrow> bool" where
  "collapses H sp a =
     (a \<noteq> [] \<and> \<not> truthy (get_service_attribute H (get_details sp) ''virtual_host'' (Some a)))"

text \<open>The section name one pass of the backend loop writes to, if any.\<close>

definition backend_names ::
  "('d, 'rs, 'r, 'vh) helpers \<Rightarrow> ('d, 'rs, 'vh) specs \<Rightarrow> 'r world \<Rightarrow> string option \<Rightarrow> string list" where
  "backend_names H sp w service_alias =
     (if \<not> real_alias service_alias then
        (if require_default_route w then [''backend default_service''] else [])
      else if truthy (get_service_attribute H (get_details sp) ''virtual_host'' service_alias)
        then [service_key service_alias]
      else [''backend default_service''])"

section \<open>A concrete instance of the helpers, for closed examples\<close>

text \<open>
  Details map a service alias to its attributes, routes map an alias to its routes
  (container name, address, port), a virtual host is a host name with its alias. The
  helper functions below are simple stand-ins with the interfaces haproxycfg.py uses;
  the general theorems do not depend on them.
\<close>

type_synonym route0 = "string \<times> string \<times> string"
type_synonym details0 = "(string \<times> (string \<times> pyval) list) list"
type_synonym routes0 = "(string \<times> route0 list) list"
type_synonym vhost0 = "string \<times> string"

definition attr_of :: "details0 \<Rightarrow> string \<Rightarrow> string \<Rightarrow> pyval" where
  "attr_of d attr a =
     (case map_of d a of
        None \<Rightarrow> PyNone
      | Some attrs \<Rightarrow> (case map_of attrs attr of None \<Rightarrow> PyNone | Some v \<Rightarrow> v))"

definition any_attr :: "details0 \<Rightarrow> string \<Rightarrow> pyval" where
  "any_attr d attr =
     (case filter truthy (map (\<lambda>(a, attrs). attr_of d attr a) d) of
        [] \<Rightarrow> PyNone
      | v # vs \<Rightarrow> v)"

definition get_service_attribute0 :: "details0 \<Rightarrow> string \<Rightarrow> string option \<Rightarrow> pyval" where
  "get_service_attribute0 d attr alias =
     (case alias of
        None \<Rightarrow> any_attr d attr
      | Some a \<Rightarrow> if a \<noteq> [] then attr_of d attr a else any_attr d attr)"

fun pyval_lines :: "pyval \<Rightarrow> string list" where
  "pyval_lines PyNone = []"
| "pyval_lines (PyStr s) = (if s \<noteq> [] then [s] else [])"
| "pyval_lines (PyList xs) = xs"

definition tcp_ports_of :: "details0 \<Rightarrow> string \<Rightarrow> string list" where
  "tcp_ports_of d a = pyval_lines (attr_of d ''tcp_ports'' a)"

definition server_line :: "route0 \<Rightarrow> string" where
  "server_line r = (case r of (name, addr, port) \<Rightarrow> ''server '' @ name @ '' '' @ addr @ '':'' @ port)"

definition get_tcp_routes0 ::
  "details0 \<Rightarrow> routes0 \<Rightarrow> string \<Rightarrow> string \<Rightarrow> string list \<times> route0 list" where
  "get_tcp_routes0 d routes port port_num =
     (let rs = concat (map (\<lambda>(a, rs).
                 if port \<in> set (tcp_ports_of d a)
                 then filter (\<lambda>(name, addr, p). p = port_num) rs else []) routes)
      in (map server_line rs, rs))"

definition check_require_default_route0 :: "routes0 \<Rightarrow> route0 list \<Rightarrow> bool" where
  "check_require_default_route0 routes added =
     (filter (\<lambda>r. r \<notin> set added) (concat (map snd routes)) \<noteq> [])"

definition get_backend_section0 ::
  "details0 \<Rightarrow> routes0 \<Rightarrow> vhost0 list \<Rightarrow> string option \<Rightarrow> route0 list \<Rightarrow> string list" where
  "get_backend_section0 d routes vhosts alias added =
     map server_line
       (filter (\<lambda>r. r \<notin> set added)
          (concat (map snd (filter (\<lambda>(a, rs). if truthy_opt alias then alias = Some a else True) routes))))"

definition config_frontend_with_virtual_host0 :: "vhost0 list \<Rightarrow> string option \<Rightarrow> odict \<times> bool" where
  "config_frontend_with_virtual_host0 vhosts bind =
     ([(''frontend port_80'',
        ''bind :80'' # map (\<lambda>(host, a). ''use_backend SERVICE_'' @ a @ '' if host '' @ host) vhosts)],
      False)"

definition config_default_frontend0 :: "string option \<Rightarrow> odict \<times> bool" where
  "config_default_frontend0 bind =
     ([(''frontend default_port_80'', [''bind :80'', ''default_backend default_service''])], False)"

definition get_bind_string0 ::
  "bool \<Rightarrow> string \<Rightarrow> string option \<Rightarrow> (string \<rightharpoonup> string) \<Rightarrow> string" where
  "get_bind_string0 enable_ssl port_num bind extra =
     port_num @ '' '' @ (if enable_ssl then (case bind of None \<Rightarrow> [] | Some b \<Rightarrow> b) else [])
       @ '' '' @ dict_get_default extra port_num []"

definition prettify0 :: "odict \<Rightarrow> string" where
  "prettify0 cfg =
     concat (map (\<lambda>(k, stmts). k @ [newline] @ concat (map (\<lambda>s. ''  '' @ s @ [newline]) stmts)) cfg)"

fun run_reload0 :: "nat option \<Rightarrow> nat option" where
  "run_reload0 None = Some 1"
| "run_reload0 (Some n) = Some (Suc n)"

definition H0 :: "(details0, routes0, route0, vhost0) helpers" where
  "H0 = \<lparr> prettify = prettify0,
          get_service_attribute = get_service_attribute0,
          get_bind_string = get_bind_string0,
          get_extra_ssl_certs = pyval_lines,
          config_ssl_bind_options = pyval_lines,
          config_ssl_bind_ciphers = pyval_lines,
          config_extra_settings = pyval_lines,
          config_option = pyval_lines,
          config_timeout = pyval_lines,
          get_tcp_port_list = (\<lambda>d aliases. concat (map (tcp_ports_of d) aliases)),
          parse_port_string = (\<lambda>port bind. (truthy_opt bind, port)),
          get_tcp_routes = get_tcp_routes0,
          get_service_aliases_given_tcp_port =
            (\<lambda>d aliases port. filter (\<lambda>a. port \<in> set (tcp_ports_of d a)) aliases),
          get_tcp_balance = (\<lambda>d. []),
          get_tcp_options = (\<lambda>d services. []),
          get_tcp_extra_settings = (\<lambda>d services. []),
          config_frontend_with_virtual_host = config_frontend_with_virtual_host0,
          check_require_default_route = check_require_default_route0,
          config_default_frontend = config_default_frontend0,
          config_monitor_frontend = (\<lambda>configured. []),
          get_backend_section = get_backend_section0,
          run_reload = run_reload0,
          set_iter = remdups \<rparr>"

text \<open>A configuration with the API credentials set and no certificate, and the same
  configuration without the credentials.\<close>

definition C_api :: config where
  "C_api = \<lparr> HAPROXY_CONTAINER_URI = Some ''/api/container/1/'',
             HAPROXY_SERVICE_URI = Some ''/api/service/1/'',
             API_AUTH = Some ''Basic abc'',
             HAPROXY_CONFIG_FILE = ''/haproxy.cfg'',
             CERT_DIR = ''/certs/'',
             CACERT_DIR = ''/cacerts/'',
             HTTP_BASIC_AUTH = None,
             DEFAULT_SSL_CERT = None,
             EXTRA_SSL_CERT = PyNone,
             DEFAULT_CA_CERT = None,
             RSYSLOG_DESTINATION = ''127.0.0.1'',
             MAXCONN = ''4096'',
             SSL_BIND_OPTIONS = PyNone,
             SSL_BIND_CIPHERS = PyNone,
             EXTRA_GLOBAL_SETTINGS = PyNone,
             STATS_PORT = ''1936'',
             STATS_AUTH = ''stats:stats'',
             EXTRA_BIND_SETTINGS = Map.empty,
             BALANCE = ''roundrobin'',
             MODE = ''http'',
             OPTION = PyNone,
             TIMEOUT = PyNone,
             EXTRA_DEFAULT_SETTINGS = PyNone \<rparr>"

definition C_env :: config where
  "C_env = C_api\<lparr>HAPROXY_CONTAINER_URI := None, HAPROXY_SERVICE_URI := None, API_AUTH := None\<rparr>"

text \<open>One web service with one route and nothing else.\<close>

definition sp_web :: "(details0, routes0, vhost0) specs" where
  "sp_web = \<lparr> get_details = [(''WEB'', [])],
              get_routes = [(''WEB'', [(''WEB_1'', ''10.0.0.1'', ''80'')])],
              get_vhosts = [],
              get_service_aliases = [''WEB''],
              get_default_ssl_cert = [],
              get_ssl_cert = [] \<rparr>"

text \<open>The API configuration with a default leaf certificate, and with a default leaf
  certificate and a CA certificate.\<close>

definition C_leaf :: config where
  "C_leaf = C_api\<lparr>DEFAULT_SSL_CERT := Some ''LEAF''\<rparr>"

definition C_both :: config where
  "C_both = C_api\<lparr>DEFAULT_SSL_CERT := Some ''LEAF'', DEFAULT_CA_CERT := Some ''CA''\<rparr>"

text \<open>The web service with a certificate of its own added.\<close>

definition sp_web2 :: "(details0, routes0, vhost0) specs" where
  "sp_web2 = sp_web\<lparr>get_ssl_cert := [''SECOND'']\<rparr>"

text \<open>The web service with a certificate of its own, as the only certificate.\<close>

definition sp_web_cert :: "(details0, routes0, vhost0) specs" where
  "sp_web_cert = sp_web\<lparr>get_ssl_cert := [''SERVICE CERT'']\<rparr>"

text \<open>Services A and B without a virtual host and service V with one; the same topology
  with A and B listed in the other order.\<close>

definition sp_abv :: "(details0, routes0, vhost0) specs" where
  "sp_abv = \<lparr> get_details = [(''A'', []), (''B'', []),
                               (''V'', [(''virtual_host'', PyStr ''v.example.com'')])],
              get_routes = [(''A'', [(''A_1'', ''10.0.0.1'', ''80'')]),
                            (''B'', [(''B_1'', ''10.0.0.2'', ''80'')]),
                            (''V'', [(''V_1'', ''10.0.0.3'', ''80'')])],
              get_vhosts = [(''v.example.com'', ''V'')],
              get_service_aliases = [''A'', ''B'', ''V''],
              get_default_ssl_cert = [],
              get_ssl_cert = [] \<rparr>"

definition sp_bav :: "(details0, routes0, vhost0) specs" where
  "sp_bav = sp_abv\<lparr>get_service_aliases := [''B'', ''A'', ''V'']\<rparr>"

text \<open>Two TCP services on different ports, each with one route, and nothing else.\<close>

definition sp_tcp :: "(details0, routes0, vhost0) specs" where
  "sp_tcp = \<lparr> get_details = [(''DB'', [(''tcp_ports'', PyList [''5432''])]),
                               (''CACHE'', [(''tcp_ports'', PyList [''6379''])])],
              get_routes = [(''DB'', [(''DB_1'', ''10.0.0.1'', ''5432'')]),
                            (''CACHE'', [(''CACHE_1'', ''10.0.0.2'', ''6379'')])],
              get_vhosts = [],
              get_service_aliases = [''DB'', ''CACHE''],
              get_default_ssl_cert = [],
              get_ssl_cert = [] \<rparr>"

section \<open>Frame and congruence lemmas\<close>

lemma emit_fields [simp]:
  "cls_cfg (emit e w) = cls_cfg w"
  "cls_process (emit e w) = cls_process w"
  "cls_certs (emit e w) = cls_certs w"
  "ssl_bind_string (emit e w) = ssl_bind_string w"
  "ssl_updated (emit e w) = ssl_updated w"
  "routes_added (emit e w) = routes_added w"
  "require_default_route (emit e w) = require_default_route w"
  "trace (emit e w) = trace w @ [e]"
  by (simp_all add: emit_def)

lemma new_instance_fields [simp]:
  "cls_cfg (new_instance w) = cls_cfg w"
  "cls_process (new_instance w) = cls_process w"
  "cls_certs (new_instance w) = cls_certs w"
  "ssl_bind_string (new_instance w) = None"
  "ssl_updated (new_instance w) = False"
  "routes_added (new_instance w) = []"
  "require_default_route (new_instance w) = False"
  "trace (new_instance w) = trace w"
  by (simp_all add: new_instance_def)

lemma config_ssl_certs_frame:
  "cls_cfg (snd (config_ssl_certs H C sp w)) = cls_cfg w"
  "cls_process (snd (config_ssl_certs H C sp w)) = cls_process w"
  "ssl_bind_string (snd (config_ssl_certs H C sp w)) = ssl_bind_string w"
  "routes_added (snd (config_ssl_certs H C sp w)) = routes_added w"
  "require_default_route (snd (config_ssl_certs H C sp w)) = require_default_route w"
  by (simp_all add: config_ssl_certs_def Let_def)

lemma config_ssl_cacerts_frame:
  "cls_cfg (snd (config_ssl_cacerts C w)) = cls_cfg w"
  "cls_process (snd (config_ssl_cacerts C w)) = cls_process w"
  "ssl_bind_string (snd (config_ssl_cacerts C w)) = ssl_bind_string w"
  "routes_added (snd (config_ssl_cacerts C w)) = routes_added w"
  "require_default_route (snd (config_ssl_cacerts C w)) = require_default_route w"
  by (simp_all add: config_ssl_cacerts_def Let_def)

lemma config_ssl_frame:
  "cls_cfg (config_ssl H C sp w) = cls_cfg w"
  "cls_process (config_ssl H C sp w) = cls_process w"
  "routes_added (config_ssl H C sp w) = routes_added w"
  "require_default_route (config_ssl H C sp w) = require_default_route w"
  by (simp_all add: config_ssl_def Let_def split_beta config_ssl_certs_frame config_ssl_cacerts_frame)

lemma config_ssl_bind:
  "ssl_bind_string (config_ssl H C sp w) =
     (if ssl_bind_of H C sp \<noteq> [] then Some (ssl_bind_of H C sp) else ssl_bind_string w)"
  by (simp add: config_ssl_def Let_def split_beta config_ssl_certs_def config_ssl_cacerts_def ssl_bind_of_def)

lemma get_tcp_section_snd:
  "snd (get_tcp_section H C sp p w) = w\<lparr>routes_added := port_routes_added H sp (ssl_bind_string w) p\<rparr>"
  by (simp add: get_tcp_section_def Let_def split_beta port_routes_added_def)

lemma get_tcp_section_fst:
  "ssl_bind_string w = ssl_bind_string w' \<Longrightarrow>
   fst (get_tcp_section H C sp p w) = fst (get_tcp_section H C sp p w')"
  by (simp add: get_tcp_section_def Let_def split_beta)

lemma tcp_loop_snd:
  "snd (tcp_loop H C sp ps (cfg, w)) =
     (if ps = [] then w
      else w\<lparr>routes_added := port_routes_added H sp (ssl_bind_string w) (last ps)\<rparr>)"
proof (induction ps arbitrary: cfg w)
  case Nil
  show ?case by simp
next
  case (Cons p ps)
  obtain sec pn w1 where g: "get_tcp_section H C sp p w = ((sec, pn), w1)"
    by (metis prod.exhaust)
  have w1: "w1 = w\<lparr>routes_added := port_routes_added H sp (ssl_bind_string w) p\<rparr>"
    using get_tcp_section_snd [of H C sp p w] g by simp
  show ?case
    using Cons.IH [of "od_set (''listen port_'' @ pn) sec cfg" w1] g w1 by simp
qed

lemma tcp_loop_fst:
  "ssl_bind_string w = ssl_bind_string w' \<Longrightarrow>
   fst (tcp_loop H C sp ps (cfg, w)) = fst (tcp_loop H C sp ps (cfg, w'))"
proof (induction ps arbitrary: cfg w w')
  case Nil
  show ?case by simp
next
  case (Cons p ps)
  obtain sec pn w1 where g: "get_tcp_section H C sp p w = ((sec, pn), w1)"
    by (metis prod.exhaust)
  obtain sec' pn' w1' where g': "get_tcp_section H C sp p w' = ((sec', pn'), w1')"
    by (metis prod.exhaust)
  have e: "sec = sec'" "pn = pn'"
    using get_tcp_section_fst [OF Cons.prems, of H C sp p] g g' by simp_all
  have b: "ssl_bind_string w1 = ssl_bind_string w1'"
    using get_tcp_section_snd [of H C sp p w] get_tcp_section_snd [of H C sp p w'] g g' Cons.prems
    by simp
  show ?case using Cons.IH [OF b] g g' e by simp
qed

lemma config_tcp_sections_snd:
  "snd (config_tcp_sections H C sp w) =
     (if \<not> truthy (get_service_attribute H (get_details sp) ''tcp_ports'' None)
         \<or> set_iter H (get_tcp_port_list H (get_details sp) (get_service_aliases sp)) = []
      then w
      else w\<lparr>routes_added := port_routes_added H sp (ssl_bind_string w)
             (last (set_iter H (get_tcp_port_list H (get_details sp) (get_service_aliases sp))))\<rparr>)"
  by (simp add: config_tcp_sections_def Let_def tcp_loop_snd)

lemma config_tcp_sections_fst:
  "ssl_bind_string w = ssl_bind_string w' \<Longrightarrow>
   fst (config_tcp_sections H C sp w) = fst (config_tcp_sections H C sp w')"
  using tcp_loop_fst [of w w' H C sp _ "[]"] by (simp add: config_tcp_sections_def Let_def)

lemma config_tcp_sections_inst:
  "inst_eq w w' \<Longrightarrow> inst_eq (snd (config_tcp_sections H C sp w)) (snd (config_tcp_sections H C sp w'))"
  by (simp add: config_tcp_sections_snd inst_eq_def)

lemma config_ssl_inst:
  "inst_eq w w' \<Longrightarrow> inst_eq (config_ssl H C sp w) (config_ssl H C sp w')"
  by (simp add: inst_eq_def config_ssl_frame config_ssl_bind)

lemma config_frontend_sections_snd:
  "snd (config_frontend_sections H sp w) =
     (if get_vhosts sp \<noteq> [] then w
      else w\<lparr>require_default_route :=
               check_require_default_route H (get_routes sp) (routes_added w)\<rparr>)"
  by (simp add: config_frontend_sections_def Let_def split_beta)

lemma config_frontend_sections_fst:
  "inst_eq w w' \<Longrightarrow>
   fst (config_frontend_sections H sp w) = fst (config_frontend_sections H sp w')"
  by (simp add: config_frontend_sections_def Let_def split_beta inst_eq_def)

lemma config_frontend_sections_inst:
  "inst_eq w w' \<Longrightarrow>
   inst_eq (snd (config_frontend_sections H sp w)) (snd (config_frontend_sections H sp w'))"
  by (simp add: config_frontend_sections_snd inst_eq_def)

lemma config_backend_sections_inst:
  "inst_eq w w' \<Longrightarrow> config_backend_sections H sp w = config_backend_sections H sp w'"
proof -
  assume "inst_eq w w'"
  then have "backend_step H sp w = backend_step H sp w'"
    by (intro ext) (simp add: backend_step_def inst_eq_def Let_def)
  then show ?thesis by (simp add: config_backend_sections_def)
qed

lemma new_instance_inst: "inst_eq (new_instance w) (new_instance w')"
  by (simp add: inst_eq_def)

lemma tcp_part_inst:
  "inst_eq w w' \<Longrightarrow> inst_eq (snd (tcp_part H C sp w)) (snd (tcp_part H C sp w'))"
  by (simp add: tcp_part_def config_tcp_sections_inst config_ssl_inst)

lemma tcp_part_fst:
  "inst_eq w w' \<Longrightarrow> fst (tcp_part H C sp w) = fst (tcp_part H C sp w')"
  unfolding tcp_part_def
  by (rule config_tcp_sections_fst) (simp add: config_ssl_bind inst_eq_def)

lemma frontend_part_inst:
  "inst_eq w w' \<Longrightarrow> inst_eq (snd (frontend_part H C sp w)) (snd (frontend_part H C sp w'))"
  by (simp add: frontend_part_def config_frontend_sections_inst tcp_part_inst)

lemma frontend_part_fst:
  "inst_eq w w' \<Longrightarrow> fst (frontend_part H C sp w) = fst (frontend_part H C sp w')"
  unfolding frontend_part_def by (rule config_frontend_sections_fst) (rule tcp_part_inst)

lemma backend_part_inst:
  "inst_eq w w' \<Longrightarrow> backend_part H C sp w = backend_part H C sp w'"
  unfolding backend_part_def by (rule config_backend_sections_inst) (rule frontend_part_inst)

lemma cfg_dict_inst:
  "inst_eq w w' \<Longrightarrow> cfg_dict H C sp w = cfg_dict H C sp w'"
  using tcp_part_fst [of w w' H C sp] frontend_part_fst [of w w' H C sp]
    backend_part_inst [of w w' H C sp]
  by (simp add: cfg_dict_def)

section \<open>The certificate comparison and the change detector\<close>

lemma config_ssl_certs_after:
  "set (cls_certs (config_ssl H C sp w)) =
     (if cert_if_set (DEFAULT_CA_CERT C) \<noteq> [] then set (cert_if_set (DEFAULT_CA_CERT C))
      else if leaf_certs H C sp \<noteq> [] then set (leaf_certs H C sp)
      else set (cls_certs w))"
  by (simp add: config_ssl_def config_ssl_certs_def config_ssl_cacerts_def Let_def split_beta)

lemma config_ssl_settled:
  assumes "leaf_certs H C sp = [] \<or> set (leaf_certs H C sp) = set (cls_certs w)"
      and "cert_if_set (DEFAULT_CA_CERT C) = [] \<or> set (cert_if_set (DEFAULT_CA_CERT C)) = set (cls_certs w)"
  shows "config_ssl H C sp w =
           (if ssl_bind_of H C sp \<noteq> [] then w\<lparr>ssl_bind_string := Some (ssl_bind_of H C sp)\<rparr> else w)"
  using assms
  by (auto simp add: config_ssl_def config_ssl_certs_def config_ssl_cacerts_def Let_def ssl_bind_of_def)

lemma tcp_part_state:
  "cls_cfg (snd (tcp_part H C sp w)) = cls_cfg w"
  "cls_process (snd (tcp_part H C sp w)) = cls_process w"
  "cls_certs (snd (tcp_part H C sp w)) = cls_certs (config_ssl H C sp w)"
  "ssl_updated (snd (tcp_part H C sp w)) = ssl_updated (config_ssl H C sp w)"
  "trace (snd (tcp_part H C sp w)) = trace (config_ssl H C sp w)"
  by (simp_all add: tcp_part_def config_tcp_sections_snd config_ssl_frame)

lemma frontend_part_state:
  "cls_cfg (snd (frontend_part H C sp w)) = cls_cfg w"
  "cls_process (snd (frontend_part H C sp w)) = cls_process w"
  "cls_certs (snd (frontend_part H C sp w)) = cls_certs (config_ssl H C sp w)"
  "ssl_updated (snd (frontend_part H C sp w)) = ssl_updated (config_ssl H C sp w)"
  "trace (snd (frontend_part H C sp w)) = trace (config_ssl H C sp w)"
  by (simp_all add: frontend_part_def config_frontend_sections_snd tcp_part_state)

lemma update_haproxy_state:
  "cls_certs (update_haproxy H C cfg ok w) = cls_certs w"
  "ssl_updated (update_haproxy H C cfg ok w) = ssl_updated w"
  "ssl_bind_string (update_haproxy H C cfg ok w) = ssl_bind_string w"
  "routes_added (update_haproxy H C cfg ok w) = routes_added w"
  "require_default_route (update_haproxy H C cfg ok w) = require_default_route w"
  by (simp_all add: update_haproxy_def Let_def)

lemma update_haproxy_cls_cfg:
  "cls_cfg (update_haproxy H C cfg ok w) = (if api_mode C then Some cfg else cls_cfg w)"
  by (simp add: update_haproxy_def Let_def)

lemma update_haproxy_unchanged:
  "api_mode C \<Longrightarrow> cls_cfg w = Some cfg \<Longrightarrow> \<not> ssl_updated w \<Longrightarrow>
   update_haproxy H C cfg ok w =
     emit (Log ''===========END==========='') (emit (Log ''HAProxy configuration remains unchanged'') w)"
  by (simp add: update_haproxy_def)

lemma update_haproxy_certs_only:
  "api_mode C \<Longrightarrow> cls_cfg w = Some cfg \<Longrightarrow> ssl_updated w \<Longrightarrow>
   update_haproxy H C cfg ok w =
     emit (Log ''===========END==========='')
       (emit RunReload
          ((emit (Log ''SSL certificates have been changed'') w)
             \<lparr>cls_process := run_reload H (cls_process w)\<rparr>))"
  by (simp add: update_haproxy_def Let_def)

lemma run_haproxy_state:
  "cls_certs (run_haproxy H C sp ok w) = cls_certs (config_ssl H C sp (new_instance w))"
  "ssl_updated (run_haproxy H C sp ok w) = ssl_updated (config_ssl H C sp (new_instance w))"
  "cls_cfg (run_haproxy H C sp ok w) =
     (if api_mode C then Some (prettify H (cfg_dict H C sp (new_instance w))) else cls_cfg w)"
  by (simp_all add: run_haproxy_def update_def update_haproxy_state update_haproxy_cls_cfg
      frontend_part_state)

lemma run_cycles_snoc:
  "run_cycles H C (ins @ [(sp, ok)]) w = run_haproxy H C sp ok (run_cycles H C ins w)"
  by (simp add: run_cycles_def)

lemma env_mode_never_commits:
  "\<not> api_mode C \<Longrightarrow> cls_cfg (run_cycles H C ins initial_world) = None"
proof (induction ins rule: rev_induct)
  case Nil
  show ?case by (simp add: run_cycles_def initial_world_def)
next
  case (snoc x xs)
  then show ?case by (cases x) (simp add: run_cycles_snoc run_haproxy_state)
qed

lemma cycle_text_same: "cycle_text H C sp w = cycle_text H C sp w'"
  using cfg_dict_inst [OF new_instance_inst, of H C sp w w'] by (simp add: cycle_text_def)

lemma run_haproxy_unfold:
  "run_haproxy H C sp ok w =
     update_haproxy H C (cycle_text H C sp w) ok (snd (frontend_part H C sp (new_instance w)))"
  by (simp add: run_haproxy_def update_def cycle_text_def)

lemma config_ssl_no_certs:
  "leaf_certs H C sp = [] \<Longrightarrow> cert_if_set (DEFAULT_CA_CERT C) = [] \<Longrightarrow> config_ssl H C sp w = w"
  by (simp add: config_ssl_settled ssl_bind_of_def)

lemma run_haproxy_env_mode:
  "\<not> api_mode C \<Longrightarrow>
   trace (run_haproxy H C sp ok w) =
     trace (config_ssl H C sp (new_instance w))
       @ [Log (''HAProxy configuration:'' @ [newline] @ cycle_text H C sp w),
          SaveToFile (HAPROXY_CONFIG_FILE C) (cycle_text H C sp w) ok, RunOnce]"
  by (simp add: run_haproxy_unfold update_haproxy_def frontend_part_state)

lemma sp_web_no_leaf: "leaf_certs H0 C_env sp_web = []"
  by (simp add: leaf_certs_def C_env_def C_api_def H0_def sp_web_def)

lemma C_env_mode: "\<not> api_mode C_env" "cert_if_set (DEFAULT_CA_CERT C_env) = []"
  "HAPROXY_CONFIG_FILE C_env = ''/haproxy.cfg''"
  by (simp_all add: api_mode_def C_env_def C_api_def)

lemma C_both_facts:
  "api_mode C_both" "cert_if_set (DEFAULT_CA_CERT C_both) = [''CA'']"
  "leaf_certs H0 C_both sp_web = [''LEAF'']" "CERT_DIR C_both = ''/certs/''"
  "CACERT_DIR C_both = ''/cacerts/''"
  by (simp_all add: api_mode_def C_both_def C_api_def leaf_certs_def H0_def sp_web_def)

lemma leaf_and_ca_always_updated:
  assumes "leaf_certs H C sp \<noteq> []" and "cert_if_set (DEFAULT_CA_CERT C) \<noteq> []"
      and "set (leaf_certs H C sp) \<noteq> set (cert_if_set (DEFAULT_CA_CERT C))"
  shows "ssl_updated (config_ssl H C sp w)
       \<and> cls_certs (config_ssl H C sp w) = cert_if_set (DEFAULT_CA_CERT C)
       \<and> trace (config_ssl H C sp w) =
           trace w
           @ (if set (leaf_certs H C sp) \<noteq> set (cls_certs w)
              then [SaveCerts (CERT_DIR C) (leaf_certs H C sp), Log ''SSL certificates are updated'']
              else [])
           @ [SaveCerts (CACERT_DIR C) (cert_if_set (DEFAULT_CA_CERT C)),
              Log ''SSL CA certificates are updated'']"
  using assms
  by (auto simp add: config_ssl_def config_ssl_certs_def config_ssl_cacerts_def Let_def)

lemma changed_leaf_set_sets_ssl_updated:
  "leaf_certs H C sp \<noteq> [] \<Longrightarrow> set (leaf_certs H C sp) \<noteq> set (cls_certs w) \<Longrightarrow>
   ssl_updated (config_ssl H C sp w)"
  by (simp add: config_ssl_def config_ssl_certs_def config_ssl_cacerts_def Let_def split_beta)

lemma config_ssl_no_config_write:
  "filter is_config_write (trace (config_ssl H C sp w)) = filter is_config_write (trace w)"
  by (simp add: config_ssl_def config_ssl_certs_def config_ssl_cacerts_def Let_def split_beta)

section \<open>Keys and lookups of the assembled document\<close>

lemma od_keys_od_set:
  "od_keys (od_set k v d) = (if k \<in> set (od_keys d) then od_keys d else od_keys d @ [k])"
proof (induction d)
  case Nil
  show ?case by (simp add: od_keys_def)
next
  case (Cons p d)
  obtain k' v' where p: "p = (k', v')" by (cases p)
  show ?case using Cons by (simp add: p od_keys_def)
qed

lemma od_keys_snoc: "od_keys (e @ [(k, v)]) = od_keys e @ [k]"
  by (simp add: od_keys_def)

lemma map_of_od_set: "map_of (od_set k v d) = (map_of d)(k \<mapsto> v)"
  by (induction d) (auto simp add: fun_eq_iff)

lemma dedup_first_snoc:
  "dedup_first (xs @ [k]) = (if k \<in> set xs then dedup_first xs else dedup_first xs @ [k])"
  by (simp add: dedup_first_def)

lemma od_update_snoc: "od_update d (e @ [(k, v)]) = od_set k v (od_update d e)"
  by (simp add: od_update_def)

lemma od_update_Nil: "od_update d [] = d"
  by (simp add: od_update_def)

lemma set_dedup_first: "set (dedup_first xs) = set xs"
  by (simp add: dedup_first_def)

lemma od_keys_od_update:
  "od_keys d = dedup_first xs \<Longrightarrow> od_keys (od_update d e) = dedup_first (xs @ od_keys e)"
proof (induction e rule: rev_induct)
  case Nil
  then show ?case by (simp add: od_update_Nil od_keys_def)
next
  case (snoc p e)
  obtain k v where p: "p = (k, v)" by (cases p)
  have "od_keys (od_update d (e @ [p])) =
        (if k \<in> set (xs @ od_keys e) then dedup_first (xs @ od_keys e)
         else dedup_first (xs @ od_keys e) @ [k])"
    using snoc by (simp add: p od_update_snoc od_keys_od_set set_dedup_first)
  also have "\<dots> = dedup_first ((xs @ od_keys e) @ [k])"
    by (simp only: dedup_first_snoc)
  finally show ?case by (simp add: p od_keys_snoc)
qed

lemma map_of_od_update: "map_of (od_update d e) = map_of d ++ map_of (rev e)"
proof (induction e rule: rev_induct)
  case Nil
  show ?case by (simp add: od_update_Nil)
next
  case (snoc p e)
  obtain k v where p: "p = (k, v)" by (cases p)
  show ?case using snoc by (simp add: p od_update_snoc map_of_od_set fun_eq_iff map_add_def)
qed

lemma set_od_keys_od_update:
  "set (od_keys (od_update d e)) = set (od_keys d) \<union> set (od_keys e)"
proof (induction e rule: rev_induct)
  case Nil
  show ?case by (simp add: od_update_Nil od_keys_def)
next
  case (snoc p e)
  obtain k v where p: "p = (k, v)" by (cases p)
  show ?case using snoc by (auto simp add: p od_update_snoc od_keys_od_set od_keys_snoc)
qed

lemma od_keys_empty: "od_keys [] = dedup_first []"
  by (simp add: od_keys_def dedup_first_def)

lemma fixed_section_keys:
  "od_keys (config_global_section H C) = [''global'']"
  "od_keys (config_defaults_section H C) = [''defaults'']"
  "od_keys (config_stats_section C) = [''listen stats'']"
  by (simp_all add: config_global_section_def config_defaults_section_def config_stats_section_def
      od_keys_def Let_def)

lemma userlist_keys:
  "od_keys (config_userlist_section a) = [] \<or> od_keys (config_userlist_section a) = [''userlist haproxy_userlist'']"
  by (simp add: config_userlist_section_def od_keys_def Let_def split: option.splits)

lemma cfg_dict_keys:
  "od_keys (cfg_dict H C sp w) =
     dedup_first ([''global'', ''defaults'', ''listen stats'']
       @ od_keys (config_userlist_section (HTTP_BASIC_AUTH C))
       @ od_keys (fst (tcp_part H C sp w))
       @ od_keys (fst (frontend_part H C sp w))
       @ od_keys (backend_part H C sp w))"
  unfolding cfg_dict_def
  using od_keys_od_update [OF od_keys_od_update [OF od_keys_od_update [OF od_keys_od_update
    [OF od_keys_od_update [OF od_keys_od_update [OF od_keys_od_update [OF od_keys_empty]]]]]]]
  by (simp add: fixed_section_keys)

lemma od_keys_od_set_dedup:
  "od_keys d = dedup_first xs \<Longrightarrow> od_keys (od_set k v d) = dedup_first (xs @ [k])"
  by (simp add: od_keys_od_set dedup_first_snoc set_dedup_first)

lemma get_tcp_section_name:
  "snd (fst (get_tcp_section H C sp p w)) = snd (parse_port_string H p (ssl_bind_string w))"
  by (simp add: get_tcp_section_def Let_def split_beta)

lemma tcp_loop_keys:
  "od_keys cfg = dedup_first xs \<Longrightarrow>
   od_keys (fst (tcp_loop H C sp ps (cfg, w))) =
     dedup_first (xs @ map (tcp_section_name H (ssl_bind_string w)) ps)"
proof (induction ps arbitrary: cfg w xs)
  case Nil
  then show ?case by simp
next
  case (Cons p ps)
  obtain sec pn w1 where g: "get_tcp_section H C sp p w = ((sec, pn), w1)"
    by (metis prod.exhaust)
  have pn: "pn = snd (parse_port_string H p (ssl_bind_string w))"
    using get_tcp_section_name [of H C sp p w] g by simp
  have b: "ssl_bind_string w1 = ssl_bind_string w"
    using get_tcp_section_snd [of H C sp p w] g by simp
  have k: "od_keys (od_set (''listen port_'' @ pn) sec cfg) =
           dedup_first (xs @ [tcp_section_name H (ssl_bind_string w) p])"
    using od_keys_od_set_dedup [OF Cons.prems] by (simp add: pn tcp_section_name_def)
  show ?case using Cons.IH [OF k, of w1] g b by simp
qed

lemma tcp_part_keys:
  "od_keys (fst (tcp_part H C sp w)) =
     dedup_first (map (tcp_section_name H (ssl_bind_string (config_ssl H C sp w))) (tcp_port_order H sp))"
  using tcp_loop_keys [OF od_keys_empty, of H C sp _ "config_ssl H C sp w"]
  by (simp add: tcp_part_def config_tcp_sections_def tcp_port_order_def Let_def od_keys_empty)

lemma backend_step_keys:
  "od_keys cfg = dedup_first xs \<Longrightarrow>
   od_keys (backend_step H sp w a cfg) = dedup_first (xs @ backend_names H sp w a)"
  by (simp add: backend_step_def backend_names_def Let_def od_keys_od_set_dedup)

lemma backend_fold_keys:
  "od_keys cfg = dedup_first xs \<Longrightarrow>
   od_keys (fold (backend_step H sp w) as cfg) =
     dedup_first (xs @ concat (map (backend_names H sp w) as))"
proof (induction as arbitrary: cfg xs)
  case Nil
  then show ?case by simp
next
  case (Cons a as)
  show ?case
    using Cons.IH [OF backend_step_keys [OF Cons.prems, of H sp w a]] by simp
qed

lemma backend_part_keys:
  "od_keys (backend_part H C sp w) =
     dedup_first (concat (map (backend_names H sp (snd (frontend_part H C sp w))) (backend_aliases sp)))"
  using backend_fold_keys [OF od_keys_empty]
  by (simp add: backend_part_def config_backend_sections_def)

lemma distinct_dedup_first: "distinct (dedup_first xs)"
  by (simp add: dedup_first_def)

lemma map_of_rev_distinct: "distinct (map fst xs) \<Longrightarrow> map_of (rev xs) = map_of xs"
proof (induction xs)
  case Nil
  show ?case by simp
next
  case (Cons p xs)
  obtain k v where p: "p = (k, v)" by (cases p)
  have "map_of xs k = None"
    using Cons.prems by (simp add: p map_of_eq_None_iff)
  then show ?case
    using Cons by (auto simp add: p fun_eq_iff map_add_def split: option.splits)
qed

lemma frontend_part_flags:
  "require_default_route (snd (frontend_part H C sp (new_instance w0))) =
     (get_vhosts sp = [] \<and>
      check_require_default_route H (get_routes sp)
        (routes_added (snd (frontend_part H C sp (new_instance w0)))))"
  "routes_added (snd (frontend_part H C sp w)) = routes_added (snd (tcp_part H C sp w))"
  by (simp_all add: frontend_part_def config_frontend_sections_snd tcp_part_def
      config_tcp_sections_snd config_ssl_frame)

lemma default_in_backend_names:
  "(''backend default_service'' \<in> set (backend_names H sp w a)) =
     ((\<not> real_alias a \<and> require_default_route w)
      \<or> (real_alias a \<and> \<not> truthy (get_service_attribute H (get_details sp) ''virtual_host'' a)))"
  by (cases a) (simp_all add: backend_names_def real_alias_def)

lemma default_in_backend_part:
  "(''backend default_service'' \<in> set (od_keys (backend_part H C sp (new_instance w0)))) =
     (require_default_route (snd (frontend_part H C sp (new_instance w0)))
      \<or> (get_vhosts sp \<noteq> [] \<and> (\<exists>a \<in> set (get_service_aliases sp). collapses H sp a)))"
proof (cases "get_vhosts sp = []")
  case True
  then show ?thesis
    by (simp add: backend_part_keys set_dedup_first backend_aliases_def default_in_backend_names
        real_alias_def)
next
  case False
  then have "\<not> require_default_route (snd (frontend_part H C sp (new_instance w0)))"
    by (simp add: frontend_part_flags)
  then show ?thesis
    using False
    by (auto simp add: backend_part_keys set_dedup_first backend_aliases_def
        default_in_backend_names real_alias_def collapses_def)
qed

lemma default_not_elsewhere:
  "''backend default_service'' \<notin> set (od_keys (config_userlist_section a))"
  "''backend default_service'' \<notin> set (od_keys (fst (tcp_part H C sp w)))"
  using userlist_keys [of a]
  by (auto simp add: tcp_part_keys set_dedup_first tcp_section_name_def)

lemma service_key_not_default: "service_key (Some a) \<noteq> ''backend default_service''"
  by simp

lemma backend_step_default:
  "\<not> require_default_route w \<Longrightarrow>
   map_of (backend_step H sp w (Some a) cfg) ''backend default_service'' =
     (if collapses H sp a
      then Some (get_backend_section H (get_details sp) (get_routes sp) (get_vhosts sp)
                   (Some a) (routes_added w))
      else map_of cfg ''backend default_service'')"
  by (simp add: backend_step_def Let_def real_alias_def collapses_def map_of_od_set)

lemma backend_fold_default:
  assumes "\<not> require_default_route w"
  shows "map_of (fold (backend_step H sp w) (map Some as) cfg) ''backend default_service'' =
     (if filter (collapses H sp) as = [] then map_of cfg ''backend default_service''
      else Some (get_backend_section H (get_details sp) (get_routes sp) (get_vhosts sp)
                   (Some (last (filter (collapses H sp) as))) (routes_added w)))"
proof (induction as rule: rev_induct)
  case Nil
  show ?case by simp
next
  case (snoc a as)
  show ?case
    using snoc by (simp add: backend_step_default [OF assms])
qed

lemma count_one: "distinct xs \<Longrightarrow> k \<in> set xs \<Longrightarrow> length (filter (\<lambda>x. x = k) xs) = 1"
  by (induction xs) (auto simp add: filter_empty_conv)

lemma cfg_dict_backend_last:
  "\<exists>D. cfg_dict H C sp w = od_update D (backend_part H C sp w)"
  unfolding cfg_dict_def by (rule exI) (rule refl)

lemma map_of_od_update_right:
  assumes "distinct (map fst e)" and "map_of e k = Some x"
  shows "map_of (od_update d e) k = Some x"
  using assms by (simp add: map_of_od_update map_of_rev_distinct map_add_find_right)

lemma backend_part_distinct: "distinct (map fst (backend_part H C sp w))"
  using backend_part_keys [of H C sp w] distinct_dedup_first
  by (simp add: od_keys_def)

section \<open>Certificate writes\<close>

lemma config_ssl_no_cert_write:
  assumes "leaf_certs H C sp = [] \<or> set (leaf_certs H C sp) = set (cls_certs w)"
      and "cert_if_set (DEFAULT_CA_CERT C) = [] \<or> set (cert_if_set (DEFAULT_CA_CERT C)) = set (cls_certs w)"
  shows "trace (config_ssl H C sp w) = trace w" "cls_certs (config_ssl H C sp w) = cls_certs w"
    "ssl_updated (config_ssl H C sp w) = ssl_updated w"
  by (simp_all add: config_ssl_settled [OF assms])

lemma update_haproxy_no_cert_write:
  "filter is_cert_write (trace (update_haproxy H C cfg ok w)) = filter is_cert_write (trace w)"
  by (simp add: update_haproxy_def Let_def)

lemma both_certs_two_cycles:
  "trace (run_haproxy H0 C_both sp_web True initial_world) =
     [SaveCerts ''/certs/'' [''LEAF''], Log ''SSL certificates are updated'',
      SaveCerts ''/cacerts/'' [''CA''], Log ''SSL CA certificates are updated'',
      Log (''HAProxy configuration:'' @ [newline] @ cycle_text H0 C_both sp_web initial_world),
      SaveToFile ''/haproxy.cfg'' (cycle_text H0 C_both sp_web initial_world) True,
      RunReload, Log ''===========END==========='']"
  "trace (run_haproxy H0 C_both sp_web True (run_haproxy H0 C_both sp_web True initial_world)) =
     trace (run_haproxy H0 C_both sp_web True initial_world) @
     [SaveCerts ''/certs/'' [''LEAF''], Log ''SSL certificates are updated'',
      SaveCerts ''/cacerts/'' [''CA''], Log ''SSL CA certificates are updated'',
      Log ''SSL certificates have been changed'', RunReload, Log ''===========END==========='']"
  "ssl_updated (run_haproxy H0 C_both sp_web True (run_haproxy H0 C_both sp_web True initial_world))"
  "cls_certs (run_haproxy H0 C_both sp_web True (run_haproxy H0 C_both sp_web True initial_world)) = [''CA'']"
proof -
  let ?w1 = "run_haproxy H0 C_both sp_web True initial_world"
  let ?w2 = "run_haproxy H0 C_both sp_web True ?w1"
  have g: "leaf_certs H0 C_both sp_web \<noteq> []" "cert_if_set (DEFAULT_CA_CERT C_both) \<noteq> []"
    "set (leaf_certs H0 C_both sp_web) \<noteq> set (cert_if_set (DEFAULT_CA_CERT C_both))"
    by (simp_all add: C_both_facts)
  note u = leaf_and_ca_always_updated [OF g]
  have f: "HAPROXY_CONFIG_FILE C_both = ''/haproxy.cfg''"
    by (simp add: C_both_def C_api_def)
  have c1: "cls_certs ?w1 = [''CA'']"
    by (simp add: run_haproxy_state u C_both_facts)
  have i: "cls_certs (initial_world :: route0 world) = []" "trace (initial_world :: route0 world) = []"
    "cls_cfg (initial_world :: route0 world) = None"
    by (simp_all add: initial_world_def)
  show t1: "trace ?w1 =
     [SaveCerts ''/certs/'' [''LEAF''], Log ''SSL certificates are updated'',
      SaveCerts ''/cacerts/'' [''CA''], Log ''SSL CA certificates are updated'',
      Log (''HAProxy configuration:'' @ [newline] @ cycle_text H0 C_both sp_web initial_world),
      SaveToFile ''/haproxy.cfg'' (cycle_text H0 C_both sp_web initial_world) True,
      RunReload, Log ''===========END==========='']"
    by (simp add: run_haproxy_unfold update_haproxy_def frontend_part_state u C_both_facts i f Let_def)
  have cfg1: "cls_cfg ?w1 = Some (cycle_text H0 C_both sp_web ?w1)"
    using cycle_text_same [of H0 C_both sp_web ?w1 initial_world]
    by (simp add: run_haproxy_state C_both_facts cycle_text_def)
  show "trace ?w2 = trace ?w1 @
     [SaveCerts ''/certs/'' [''LEAF''], Log ''SSL certificates are updated'',
      SaveCerts ''/cacerts/'' [''CA''], Log ''SSL CA certificates are updated'',
      Log ''SSL certificates have been changed'', RunReload, Log ''===========END==========='']"
    unfolding run_haproxy_unfold [of H0 C_both sp_web True ?w1]
    by (subst update_haproxy_certs_only)
       (simp_all add: frontend_part_state u C_both_facts cfg1 c1)
  show "ssl_updated ?w2" "cls_certs ?w2 = [''CA'']"
    by (simp_all add: run_haproxy_state u C_both_facts)
qed

section \<open>Userlist correctness\<close>

text \<open>
  C9: for the basic-auth string \<^verbatim>\<open>alice:secret,bob:pw\,2\<close> (the character before the
  second comma is a backslash) the userlist section holds exactly two user statements:
  alice with password secret, and bob with password \<^verbatim>\<open>pw,2\<close>; the escaped comma does
  not split the entry.
\<close>

theorem userlist_alice_bob:
  "config_userlist_section (Some (''alice:secret,bob:pw'' @ [backslash] @ '',2'')) =
     [(''userlist haproxy_userlist'',
       [''user alice insecure-password secret'', ''user bob insecure-password pw,2''])]"
  by (simp add: config_userlist_section_def re_split_unescaped_comma_def userlist_entry_def
      strip_def is_space_def split_colon_1_def backslash_def)

section \<open>Idempotence of the cycle\<close>

text \<open>
  C1, as stated, fails. Without the API credentials every run logs the text, writes
  the file and calls \<^verbatim>\<open>run_once\<close>: the second of two identical runs does so again
  and never takes the branch "configuration remains unchanged". With the credentials, a
  leaf certificate and a CA certificate, the second of two identical runs signals a
  reload.
\<close>

theorem second_run_counterexample:
  "trace (run_cycles H0 C_env [(sp_web, True), (sp_web, True)] initial_world) =
     [Log (''HAProxy configuration:'' @ [newline] @ cycle_text H0 C_env sp_web initial_world),
      SaveToFile ''/haproxy.cfg'' (cycle_text H0 C_env sp_web initial_world) True,
      RunOnce,
      Log (''HAProxy configuration:'' @ [newline] @ cycle_text H0 C_env sp_web initial_world),
      SaveToFile ''/haproxy.cfg'' (cycle_text H0 C_env sp_web initial_world) True,
      RunOnce]
   \<and> filter is_reload (trace (run_cycles H0 C_both [(sp_web, True), (sp_web, True)] initial_world)) =
     [RunReload, RunReload]"
proof -
  have t: "cycle_text H0 C_env sp_web (run_haproxy H0 C_env sp_web True initial_world)
           = cycle_text H0 C_env sp_web initial_world"
    by (rule cycle_text_same)
  have a: "trace (run_cycles H0 C_env [(sp_web, True), (sp_web, True)] initial_world) =
     [Log (''HAProxy configuration:'' @ [newline] @ cycle_text H0 C_env sp_web initial_world),
      SaveToFile ''/haproxy.cfg'' (cycle_text H0 C_env sp_web initial_world) True,
      RunOnce,
      Log (''HAProxy configuration:'' @ [newline] @ cycle_text H0 C_env sp_web initial_world),
      SaveToFile ''/haproxy.cfg'' (cycle_text H0 C_env sp_web initial_world) True,
      RunOnce]"
    by (simp add: run_cycles_def run_haproxy_env_mode C_env_mode config_ssl_no_certs sp_web_no_leaf t)
       (simp add: initial_world_def)
  have b: "filter is_reload (trace (run_cycles H0 C_both [(sp_web, True), (sp_web, True)] initial_world)) =
     [RunReload, RunReload]"
    by (simp add: run_cycles_def both_certs_two_cycles)
  show ?thesis using a b by simp
qed

text \<open>
  C1, amended: with the API credentials set, and when a leaf certificate and a CA
  certificate are not both configured as different sets, a second run with the same
  topology and certificates serialises the same text, takes the branch "configuration
  remains unchanged" (no file write, no certificate write, no reload) and leaves the
  persisted state as it was.
\<close>

theorem second_run_unchanged_in_api_mode:
  assumes api: "api_mode C"
      and certs: "leaf_certs H C sp = [] \<or> cert_if_set (DEFAULT_CA_CERT C) = []
                  \<or> set (leaf_certs H C sp) = set (cert_if_set (DEFAULT_CA_CERT C))"
      and w1: "w1 = run_haproxy H C sp ok1 w0"
      and w2: "w2 = run_haproxy H C sp ok2 w1"
  shows "cycle_text H C sp w1 = cycle_text H C sp w0
       \<and> cls_cfg w2 = cls_cfg w1 \<and> cls_certs w2 = cls_certs w1 \<and> cls_process w2 = cls_process w1
       \<and> trace w2 = trace w1 @ [Log ''HAProxy configuration remains unchanged'',
                                Log ''===========END==========='']"
proof -
  let ?v = "snd (frontend_part H C sp (new_instance w1))"
  have same: "cycle_text H C sp w1 = cycle_text H C sp w0"
    by (rule cycle_text_same)
  have cfg1: "cls_cfg w1 = Some (cycle_text H C sp w1)"
    using api same by (simp add: w1 run_haproxy_state cycle_text_def)
  have set1: "set (cls_certs w1) =
     (if cert_if_set (DEFAULT_CA_CERT C) \<noteq> [] then set (cert_if_set (DEFAULT_CA_CERT C))
      else if leaf_certs H C sp \<noteq> [] then set (leaf_certs H C sp)
      else set (cls_certs w0))"
    by (simp add: w1 run_haproxy_state config_ssl_certs_after)
  have a: "leaf_certs H C sp = [] \<or> set (leaf_certs H C sp) = set (cls_certs (new_instance w1))"
    using certs set1 by auto
  have b: "cert_if_set (DEFAULT_CA_CERT C) = []
           \<or> set (cert_if_set (DEFAULT_CA_CERT C)) = set (cls_certs (new_instance w1))"
    using set1 by auto
  note s = config_ssl_settled [OF a b]
  have v_cfg: "cls_cfg ?v = Some (cycle_text H C sp w1)"
    using cfg1 by (simp add: frontend_part_state)
  have v_upd: "\<not> ssl_updated ?v"
    by (simp add: frontend_part_state s)
  have v_tr: "trace ?v = trace w1"
    by (simp add: frontend_part_state s)
  have v_certs: "cls_certs ?v = cls_certs w1"
    by (simp add: frontend_part_state s)
  have v_proc: "cls_process ?v = cls_process w1"
    by (simp add: frontend_part_state)
  have w2': "w2 = emit (Log ''===========END==========='')
                    (emit (Log ''HAProxy configuration remains unchanged'') ?v)"
    unfolding w2 run_haproxy_unfold
    by (rule update_haproxy_unchanged [OF api v_cfg v_upd])
  show ?thesis
    using same v_cfg v_tr v_certs v_proc cfg1 by (simp add: w2')
qed

theorem second_run_unchanged_witness:
  "api_mode C_leaf \<and> cert_if_set (DEFAULT_CA_CERT C_leaf) = []
   \<and> trace (run_haproxy H0 C_leaf sp_web True (run_haproxy H0 C_leaf sp_web True initial_world)) =
       trace (run_haproxy H0 C_leaf sp_web True initial_world)
         @ [Log ''HAProxy configuration remains unchanged'', Log ''===========END==========='']"
proof -
  have a: "api_mode C_leaf" by (simp add: api_mode_def C_leaf_def C_api_def)
  have b: "cert_if_set (DEFAULT_CA_CERT C_leaf) = []" by (simp add: C_leaf_def C_api_def)
  show ?thesis
    using a b second_run_unchanged_in_api_mode [OF a disjI2 [OF disjI1 [OF b]] refl refl,
      where H = H0 and sp = sp_web and ?ok1.0 = True and ?ok2.0 = True and ?w0.0 = initial_world]
    by simp
qed

section \<open>Commit of the new text\<close>

text \<open>
  C2, as stated, fails: when the write of a changed text fails, \<open>cls_cfg\<close> already holds
  the new text.
\<close>

theorem failed_write_counterexample:
  "cls_cfg (update_haproxy H0 C_api ''new text'' False (initial_world\<lparr>cls_cfg := Some ''old text''\<rparr>))
     = Some ''new text''
   \<and> trace (update_haproxy H0 C_api ''new text'' False (initial_world\<lparr>cls_cfg := Some ''old text''\<rparr>))
     = [Log (''HAProxy configuration:'' @ [newline] @ ''new text''),
        SaveToFile ''/haproxy.cfg'' ''new text'' False,
        Log ''===========END==========='']"
  by (simp add: update_haproxy_def api_mode_def C_api_def initial_world_def Let_def)

text \<open>
  C2, amended: in a cycle whose text differs from \<open>cls_cfg\<close> (API credentials set) the
  detector stores the new text in \<open>cls_cfg\<close> before it writes the file, so the new text
  is committed whether the write succeeds or not; only the reload depends on the write.
  After a failed write a further cycle with the same text and no certificate change takes
  the branch "configuration remains unchanged".
\<close>

theorem changed_text_committed_before_write:
  assumes "api_mode C" and "cls_cfg w \<noteq> Some cfg"
  shows "cls_cfg (update_haproxy H C cfg write_ok w) = Some cfg
       \<and> trace (update_haproxy H C cfg write_ok w) =
           trace w @ [Log (''HAProxy configuration:'' @ [newline] @ cfg),
                      SaveToFile (HAPROXY_CONFIG_FILE C) cfg write_ok]
                   @ (if write_ok then [RunReload] else [])
                   @ [Log ''===========END==========='']
       \<and> cls_process (update_haproxy H C cfg write_ok w) =
           (if write_ok then run_reload H (cls_process w) else cls_process w)
       \<and> (\<not> ssl_updated w \<longrightarrow>
            trace (update_haproxy H C cfg ok2 (update_haproxy H C cfg write_ok w)) =
              trace (update_haproxy H C cfg write_ok w)
                @ [Log ''HAProxy configuration remains unchanged'', Log ''===========END===========''])"
  using assms by (simp add: update_haproxy_def Let_def)

theorem changed_text_committed_witness:
  "api_mode C_api \<and> cls_cfg (initial_world :: route0 world) \<noteq> Some ''text''
   \<and> cls_cfg (update_haproxy H0 C_api ''text'' False (initial_world :: route0 world)) = Some ''text''"
proof -
  have a: "api_mode C_api" by (simp add: api_mode_def C_api_def)
  have b: "cls_cfg (initial_world :: route0 world) \<noteq> Some ''text''" by (simp add: initial_world_def)
  show ?thesis
    using a b changed_text_committed_before_write [OF a b, of H0 False] by simp
qed

section \<open>Certificate state shared by leaf and CA certificates\<close>

text \<open>
  C3 does not hold of the code: \<^verbatim>\<open>_config_ssl_cacerts\<close> compares the CA certificate with
  \<open>cls_certs\<close>, the list \<^verbatim>\<open>_config_ssl_certs\<close> has just set to the leaf certificates, and
  overwrites it. With a leaf certificate LEAF and a CA certificate CA, two cycles with the
  same topology each write both certificate directories, each set \<open>ssl_updated\<close> and
  each signal a reload.
\<close>

theorem leaf_and_ca_certs_report_change_every_cycle:
  "ssl_updated (run_cycles H0 C_both [(sp_web, True), (sp_web, True)] initial_world) = True
   \<and> cls_certs (run_cycles H0 C_both [(sp_web, True), (sp_web, True)] initial_world) = [''CA'']
   \<and> filter is_cert_write (trace (run_cycles H0 C_both [(sp_web, True), (sp_web, True)] initial_world)) =
       [SaveCerts ''/certs/'' [''LEAF''], SaveCerts ''/cacerts/'' [''CA''],
        SaveCerts ''/certs/'' [''LEAF''], SaveCerts ''/cacerts/'' [''CA'']]
   \<and> drop 8 (trace (run_cycles H0 C_both [(sp_web, True), (sp_web, True)] initial_world)) =
       [SaveCerts ''/certs/'' [''LEAF''], Log ''SSL certificates are updated'',
        SaveCerts ''/cacerts/'' [''CA''], Log ''SSL CA certificates are updated'',
        Log ''SSL certificates have been changed'', RunReload, Log ''===========END==========='']"
  by (simp add: run_cycles_def both_certs_two_cycles)

section \<open>Reload on a certificate change alone\<close>

text \<open>
  C4: in every cycle of a run of the process whose serialised text equals the last
  applied text and in which \<open>ssl_updated\<close> is set, the detector logs the certificate
  change, signals one reload and does not write the configuration file; \<open>cls_cfg\<close> stays.
\<close>

theorem cert_only_change_reloads_without_rewrite:
  assumes start: "w = new_instance (run_cycles H C ins initial_world)"
      and same_text: "cls_cfg w = Some (prettify H (cfg_dict H C sp w))"
      and updated: "ssl_updated (config_ssl H C sp w)"
  shows "trace (update H C sp write_ok w) =
           trace (config_ssl H C sp w)
             @ [Log ''SSL certificates have been changed'', RunReload, Log ''===========END==========='']
       \<and> filter is_config_write (trace (update H C sp write_ok w)) = filter is_config_write (trace w)
       \<and> cls_process (update H C sp write_ok w) = run_reload H (cls_process w)
       \<and> cls_cfg (update H C sp write_ok w) = cls_cfg w"
proof -
  have api: "api_mode C"
  proof (rule ccontr)
    assume "\<not> api_mode C"
    then have "cls_cfg w = None"
      by (simp add: start env_mode_never_commits)
    with same_text show False by simp
  qed
  let ?v = "snd (frontend_part H C sp w)"
  have v: "cls_cfg ?v = Some (prettify H (cfg_dict H C sp w))" "ssl_updated ?v"
    using same_text updated by (simp_all add: frontend_part_state)
  have u: "update H C sp write_ok w =
     emit (Log ''===========END==========='')
       (emit RunReload
          ((emit (Log ''SSL certificates have been changed'') ?v)
             \<lparr>cls_process := run_reload H (cls_process ?v)\<rparr>))"
    unfolding update_def by (rule update_haproxy_certs_only [OF api v])
  show ?thesis
    using same_text
    by (simp add: u frontend_part_state config_ssl_no_config_write)
qed

theorem cert_only_change_witness:
  "cls_cfg (new_instance (run_cycles H0 C_leaf [(sp_web, True)] initial_world)) =
     Some (prettify H0 (cfg_dict H0 C_leaf sp_web2
       (new_instance (run_cycles H0 C_leaf [(sp_web, True)] initial_world))))
   \<and> ssl_updated (config_ssl H0 C_leaf sp_web2
       (new_instance (run_cycles H0 C_leaf [(sp_web, True)] initial_world)))
   \<and> filter is_config_write (trace (update H0 C_leaf sp_web2 True
        (new_instance (run_cycles H0 C_leaf [(sp_web, True)] initial_world))))
     = filter is_config_write (trace (new_instance (run_cycles H0 C_leaf [(sp_web, True)] initial_world)))
   \<and> cls_process (update H0 C_leaf sp_web2 True
        (new_instance (run_cycles H0 C_leaf [(sp_web, True)] initial_world))) = Some 2"
proof -
  let ?w = "new_instance (run_cycles H0 C_leaf [(sp_web, True)] initial_world)"
  have same_text: "cls_cfg ?w = Some (prettify H0 (cfg_dict H0 C_leaf sp_web2 ?w))"
    by code_simp
  have updated: "ssl_updated (config_ssl H0 C_leaf sp_web2 ?w)"
    by code_simp
  have p: "run_reload H0 (cls_process ?w) = Some 2"
    by code_simp
  show ?thesis
    using cert_only_change_reloads_without_rewrite [OF refl same_text updated, of True]
      same_text updated p
    by (simp add: config_ssl_no_config_write)
qed

section \<open>Order of the sections\<close>

text \<open>
  C5, as stated, fails: listing the services A and B, neither with a virtual host, in the
  other order changes the statements under \<^verbatim>\<open>backend default_service\<close> and so the text.
\<close>

theorem alias_order_changes_document:
  "map_of (cfg_dict H0 C_api sp_abv (new_instance initial_world)) ''backend default_service'' =
     Some [''server B_1 10.0.0.2:80'']
   \<and> map_of (cfg_dict H0 C_api sp_bav (new_instance initial_world)) ''backend default_service'' =
     Some [''server A_1 10.0.0.1:80'']
   \<and> cycle_text H0 C_api sp_abv initial_world \<noteq> cycle_text H0 C_api sp_bav initial_world"
  by code_simp

text \<open>
  C5, amended: the section names of the document are, each at its first insertion, the
  names of global, defaults, stats, userlist, the TCP listeners, the frontends and the
  backends, in this order. The TCP listeners follow the order in which
  \<^verbatim>\<open>set(tcp_ports)\<close> is iterated and the backends follow the list of service aliases;
  neither is sorted.
\<close>

theorem sections_in_policy_order:
  "od_keys (cfg_dict H C sp w) =
     dedup_first ([''global'', ''defaults'', ''listen stats'']
       @ od_keys (config_userlist_section (HTTP_BASIC_AUTH C))
       @ od_keys (fst (tcp_part H C sp w))
       @ od_keys (fst (frontend_part H C sp w))
       @ od_keys (backend_part H C sp w))
   \<and> od_keys (fst (tcp_part H C sp w)) =
     dedup_first (map (tcp_section_name H (ssl_bind_string (config_ssl H C sp w))) (tcp_port_order H sp))
   \<and> od_keys (backend_part H C sp w) =
     dedup_first (concat (map (backend_names H sp (snd (frontend_part H C sp w))) (backend_aliases sp)))"
  using cfg_dict_keys [of H C sp w] tcp_part_keys [of H C sp w] backend_part_keys [of H C sp w]
  by simp

section \<open>Presence of the default backend\<close>

text \<open>
  C6: provided no frontend section is itself named \<^verbatim>\<open>backend default_service\<close>, the
  document has a section of that name if and only if \<open>require_default_route\<close> is set or
  virtual hosts exist and some real alias lacks the \<^verbatim>\<open>virtual_host\<close> attribute; and
  \<open>require_default_route\<close> is set exactly when there is no virtual host and the frontend
  check finds a route outside \<open>routes_added\<close>.
\<close>

theorem default_service_backend_iff:
  assumes fe: "''backend default_service'' \<notin> set (od_keys (fst (frontend_part H C sp (new_instance w0))))"
      and v: "v = snd (frontend_part H C sp (new_instance w0))"
  shows "(''backend default_service'' \<in> set (od_keys (cfg_dict H C sp (new_instance w0)))) =
           (require_default_route v
            \<or> (get_vhosts sp \<noteq> [] \<and> (\<exists>a \<in> set (get_service_aliases sp). collapses H sp a)))
       \<and> require_default_route v =
           (get_vhosts sp = [] \<and> check_require_default_route H (get_routes sp) (routes_added v))"
proof -
  have "(''backend default_service'' \<in> set (od_keys (cfg_dict H C sp (new_instance w0)))) =
        (''backend default_service'' \<in> set (od_keys (backend_part H C sp (new_instance w0))))"
    using fe by (simp add: cfg_dict_keys set_dedup_first default_not_elsewhere)
  then show ?thesis
    using frontend_part_flags(1) [of H C sp w0]
    by (simp add: v default_in_backend_part)
qed

theorem default_service_backend_witness:
  "''backend default_service'' \<notin> set (od_keys (fst (frontend_part H0 C_api sp_web (new_instance initial_world))))
   \<and> ''backend default_service'' \<in> set (od_keys (cfg_dict H0 C_api sp_web (new_instance initial_world)))
   \<and> require_default_route (snd (frontend_part H0 C_api sp_web (new_instance initial_world)))"
proof -
  have fe: "''backend default_service'' \<notin>
            set (od_keys (fst (frontend_part H0 C_api sp_web (new_instance initial_world))))"
    by code_simp
  have r: "require_default_route (snd (frontend_part H0 C_api sp_web (new_instance initial_world)))"
    by code_simp
  show ?thesis
    using fe r default_service_backend_iff [OF fe refl] by simp
qed

section \<open>Aliases sharing the default backend\<close>

text \<open>
  C7: when two or more real aliases lack the \<^verbatim>\<open>virtual_host\<close> attribute, the document
  has exactly one section \<^verbatim>\<open>backend default_service\<close>, and its statements are those of
  the last such alias in the order of the alias list.
\<close>

theorem later_alias_overwrites_default_service:
  assumes vh: "get_vhosts sp \<noteq> []"
      and two: "2 \<le> length (filter (collapses H sp) (get_service_aliases sp))"
      and v: "v = snd (frontend_part H C sp (new_instance w0))"
  shows "map_of (cfg_dict H C sp (new_instance w0)) ''backend default_service'' =
           Some (get_backend_section H (get_details sp) (get_routes sp) (get_vhosts sp)
                   (Some (last (filter (collapses H sp) (get_service_aliases sp))))
                   (routes_added v))
       \<and> length (filter (\<lambda>k. k = ''backend default_service'')
            (od_keys (cfg_dict H C sp (new_instance w0)))) = 1"
proof -
  have ne: "filter (collapses H sp) (get_service_aliases sp) \<noteq> []"
    using two by auto
  have nr: "\<not> require_default_route v"
    using vh by (simp add: v frontend_part_flags)
  have be: "map_of (backend_part H C sp (new_instance w0)) ''backend default_service'' =
            Some (get_backend_section H (get_details sp) (get_routes sp) (get_vhosts sp)
                   (Some (last (filter (collapses H sp) (get_service_aliases sp))))
                   (routes_added v))"
    using backend_fold_default [OF nr, of H sp "get_service_aliases sp" "[]"] vh ne
    by (simp add: backend_part_def config_backend_sections_def backend_aliases_def v)
  obtain D where D: "cfg_dict H C sp (new_instance w0) =
                        od_update D (backend_part H C sp (new_instance w0))"
    using cfg_dict_backend_last by blast
  have doc: "map_of (cfg_dict H C sp (new_instance w0)) ''backend default_service'' =
        Some (get_backend_section H (get_details sp) (get_routes sp) (get_vhosts sp)
                   (Some (last (filter (collapses H sp) (get_service_aliases sp))))
                   (routes_added v))"
    unfolding D by (rule map_of_od_update_right [OF backend_part_distinct be])
  have "map_of (backend_part H C sp (new_instance w0)) ''backend default_service'' \<noteq> None"
    using be by simp
  then have "''backend default_service'' \<in> set (od_keys (backend_part H C sp (new_instance w0)))"
    by (simp add: map_of_eq_None_iff od_keys_def)
  then have mem: "''backend default_service'' \<in> set (od_keys (cfg_dict H C sp (new_instance w0)))"
    by (simp add: D set_od_keys_od_update)
  have dist: "distinct (od_keys (cfg_dict H C sp (new_instance w0)))"
    by (simp add: cfg_dict_keys distinct_dedup_first)
  show ?thesis
    using doc count_one [OF dist mem] by simp
qed

theorem later_alias_overwrites_witness:
  "get_vhosts sp_abv \<noteq> []
   \<and> filter (collapses H0 sp_abv) (get_service_aliases sp_abv) = [''A'', ''B'']
   \<and> map_of (cfg_dict H0 C_api sp_abv (new_instance initial_world)) ''backend default_service'' =
        Some [''server B_1 10.0.0.2:80'']"
proof -
  have vh: "get_vhosts sp_abv \<noteq> []" by code_simp
  have f: "filter (collapses H0 sp_abv) (get_service_aliases sp_abv) = [''A'', ''B'']" by code_simp
  have two: "2 \<le> length (filter (collapses H0 sp_abv) (get_service_aliases sp_abv))"
    by (simp add: f)
  have b: "get_backend_section H0 (get_details sp_abv) (get_routes sp_abv) (get_vhosts sp_abv)
             (Some ''B'') (routes_added (snd (frontend_part H0 C_api sp_abv (new_instance initial_world))))
           = [''server B_1 10.0.0.2:80'']"
    by code_simp
  show ?thesis
    using vh f b later_alias_overwrites_default_service [OF vh two refl, of C_api initial_world]
    by simp
qed

section \<open>Routes added by the TCP sections\<close>

text \<open>
  C8 does not hold of the code: \<^verbatim>\<open>get_tcp_section\<close> assigns to \<open>routes_added\<close> what
  \<^verbatim>\<open>get_tcp_routes\<close> returned for its own port. With the ports 5432 and 6379, each
  with one route, both routes are written into a TCP listener, \<open>routes_added\<close> ends with
  the route of port 6379 alone, the frontend check asks for a default route, and the
  route of port 5432 is written again under \<^verbatim>\<open>backend default_service\<close>.
\<close>

theorem routes_added_keeps_last_port_only:
  "map_of (fst (tcp_part H0 C_api sp_tcp (new_instance initial_world))) ''listen port_5432'' =
     Some [''bind :5432'', ''mode tcp'', ''server DB_1 10.0.0.1:5432'']
   \<and> map_of (fst (tcp_part H0 C_api sp_tcp (new_instance initial_world))) ''listen port_6379'' =
     Some [''bind :6379'', ''mode tcp'', ''server CACHE_1 10.0.0.2:6379'']
   \<and> routes_added (snd (tcp_part H0 C_api sp_tcp (new_instance initial_world))) =
     [(''CACHE_1'', ''10.0.0.2'', ''6379'')]
   \<and> require_default_route (snd (frontend_part H0 C_api sp_tcp (new_instance initial_world))) = True
   \<and> map_of (cfg_dict H0 C_api sp_tcp (new_instance initial_world)) ''backend default_service'' =
     Some [''server DB_1 10.0.0.1:5432'']"
  by code_simp

section \<open>An empty list of leaf certificates\<close>

text \<open>
  C10: when the leaf certificates of a cycle are empty, \<^verbatim>\<open>_config_ssl_certs\<close> returns the
  empty bind string and leaves the world as it is (no comparison, no write). A cycle with
  no leaf certificate that follows any other cycle ends with \<open>ssl_updated\<close> unset and
  \<open>cls_certs\<close> unchanged, writes no certificate, and does not log a certificate change.
\<close>

theorem empty_leaf_certs_never_compared:
  assumes empty: "leaf_certs H C sp2 = []"
      and w1: "w1 = run_haproxy H C sp1 ok1 w0"
      and w2: "w2 = run_haproxy H C sp2 ok2 w1"
  shows "config_ssl_certs H C sp2 w = ([], w)
       \<and> \<not> ssl_updated w2
       \<and> cls_certs w2 = cls_certs w1
       \<and> filter is_cert_write (trace w2) = filter is_cert_write (trace w1)
       \<and> Log ''SSL certificates have been changed'' \<notin> set (drop (length (trace w1)) (trace w2))"
proof -
  have first: "config_ssl_certs H C sp2 w = ([], w)"
    using empty by (simp add: config_ssl_certs_def)
  have a: "leaf_certs H C sp2 = [] \<or> set (leaf_certs H C sp2) = set (cls_certs (new_instance w1))"
    using empty by simp
  have b: "cert_if_set (DEFAULT_CA_CERT C) = []
           \<or> set (cert_if_set (DEFAULT_CA_CERT C)) = set (cls_certs (new_instance w1))"
    by (simp add: w1 run_haproxy_state config_ssl_certs_after)
  note s = config_ssl_no_cert_write [OF a b]
  let ?v = "snd (frontend_part H C sp2 (new_instance w1))"
  have v: "\<not> ssl_updated ?v" "trace ?v = trace w1" "cls_certs ?v = cls_certs w1"
    by (simp_all add: frontend_part_state s)
  have w2': "w2 = update_haproxy H C (cycle_text H C sp2 w1) ok2 ?v"
    by (simp add: w2 run_haproxy_unfold)
  have t: "Log ''SSL certificates have been changed'' \<notin> set (drop (length (trace w1)) (trace w2))"
    using v by (simp add: w2' update_haproxy_def Let_def)
  show ?thesis
    using first v t by (simp add: w2' update_haproxy_state update_haproxy_no_cert_write)
qed

theorem empty_leaf_certs_witness:
  "leaf_certs H0 C_api sp_web = []
   \<and> cls_certs (run_haproxy H0 C_api sp_web_cert True initial_world) = [''SERVICE CERT'']
   \<and> \<not> ssl_updated (run_haproxy H0 C_api sp_web True (run_haproxy H0 C_api sp_web_cert True initial_world))
   \<and> cls_certs (run_haproxy H0 C_api sp_web True (run_haproxy H0 C_api sp_web_cert True initial_world))
       = [''SERVICE CERT'']"
proof -
  have e: "leaf_certs H0 C_api sp_web = []" by code_simp
  have c: "cls_certs (run_haproxy H0 C_api sp_web_cert True initial_world) = [''SERVICE CERT'']"
    by code_simp
  show ?thesis
    using e c empty_leaf_certs_never_compared [OF e refl refl,
      where ?sp1.0 = sp_web_cert and ?ok1.0 = True and ?ok2.0 = True and ?w0.0 = initial_world]
    by simp
qed

end
